theory Spec2Isabelle
  imports Main
begin

section \<open>Values shared by both packages\<close>

text \<open>
  Byte slices are lists of byte values. Where the Go code distinguishes a nil slice from
  a present one (\<^verbatim>\<open>updatedCSR.Status.Certificate != nil\<close>, the result of \<^verbatim>\<open>net.ParseIP\<close>)
  the model uses an option; where it only hands the bytes on (\<^verbatim>\<open>secret.Data["cert"]\<close>)
  a missing entry reads as the empty slice, which \<^verbatim>\<open>pem.Decode\<close> and
  \<^verbatim>\<open>tls.X509KeyPair\<close> treat like nil.
\<close>

type_synonym bytes = "nat list"

text \<open>
  Go errors. An error of the API machinery carries a reason, which
  \<^verbatim>\<open>apierrors.IsNotFound\<close> inspects; every other error (\<^verbatim>\<open>fmt.Errorf\<close>, the errors
  of the crypto libraries) is its message.
\<close>

datatype status_reason = NotFound | AlreadyExists | ServerFailure

datatype error = StatusError status_reason string | ErrorString string

fun Error :: "error \<Rightarrow> string" where
  "Error (StatusError r m) = m"
| "Error (ErrorString m) = m"

fun IsNotFound :: "error \<Rightarrow> bool" where
  "IsNotFound (StatusError NotFound m) = True"
| "IsNotFound e = False"

text \<open>The verb \<^verbatim>\<open>%v\<close> applied to an error value that may be nil.\<close>

fun fmt_v :: "error option \<Rightarrow> string" where
  "fmt_v None = ''<nil>''"
| "fmt_v (Some e) = Error e"

section \<open>Package label\<close>

text \<open>
  Modelled from the spec: package \<^verbatim>\<open>label\<close> (pkg/label) is not among the source files.
  The spec names the ownership labels of a CSR resource (namespace, "managed-by",
  instance) and of a Credential Secret (the same and component), and "this system's
  managed-by marker"; the error text of \<^verbatim>\<open>getCSR\<close> names the marker tidb-operator.
  \<^verbatim>\<open>label.New()\<close> is the label set that carries that marker.
\<close>

definition NamespaceLabelKey :: string where
  "NamespaceLabelKey = ''namespace''"

definition ManagedByLabelKey :: string where
  "ManagedByLabelKey = ''managed-by''"

definition InstanceLabelKey :: string where
  "InstanceLabelKey = ''instance''"

definition ComponentLabelKey :: string where
  "ComponentLabelKey = ''component''"

definition label_New :: "string \<rightharpoonup> string" where
  "label_New = [ManagedByLabelKey \<mapsto> ''tidb-operator'']"

text \<open>Indexing a Go \<^verbatim>\<open>map[string]string\<close>: a missing key reads as the empty string.\<close>

definition index_map :: "(string \<rightharpoonup> string) \<Rightarrow> string \<Rightarrow> string" where
  "index_map m k = (case m k of None \<Rightarrow> [] | Some v \<Rightarrow> v)"

section \<open>Cluster objects\<close>

record CertificateSigningRequestCondition =
  cond_Type :: string
  cond_Reason :: string
  cond_Message :: string

definition CertificateApproved :: string where
  "CertificateApproved = ''Approved''"

definition CertificateDenied :: string where
  "CertificateDenied = ''Denied''"

datatype KeyUsage = UsageClientAuth | UsageServerAuth

record CertificateSigningRequest =
  csr_Kind :: string
  csr_Name :: string
  csr_UID :: nat
  csr_Labels :: "string \<rightharpoonup> string"
  csr_Request :: bytes
  csr_Usages :: "KeyUsage list"
  csr_Conditions :: "CertificateSigningRequestCondition list"
  csr_Certificate :: "bytes option"

record Secret =
  secret_Name :: string
  secret_Labels :: "string \<rightharpoonup> string"
  secret_Data :: "string \<rightharpoonup> bytes"

definition index_data :: "(string \<rightharpoonup> bytes) \<Rightarrow> string \<Rightarrow> bytes" where
  "index_data m k = (case m k of None \<Rightarrow> [] | Some v \<Rightarrow> v)"

section \<open>The world outside the controller\<close>

text \<open>
  \<^verbatim>\<open>realCertControl\<close> holds one field, the client \<^verbatim>\<open>kubeCli\<close>. What the client
  reaches is passed through every operation as a state:
  \<^item> \<open>csrs\<close>: the CSR resources of the control plane (cluster scoped, keyed by name);
  \<^item> \<open>secrets\<close>: the secrets, keyed by namespace and name;
  \<^item> \<open>next_uid\<close>: the identity the server gives the next resource it creates;
  \<^item> \<open>faults\<close>: one slot per API call still to come; a slot holding an error makes that
    call fail with it before it reaches the store (network, authorisation, backend), an
    empty slot or an exhausted list lets the call through;
  \<^item> \<open>removes\<close> and \<open>deletes\<close>: a delete of a CSR resource that the server accepts
    (it answers nil) need not have removed the resource when the next call looks for it
    (a finalizer holds it, the removal is still under way, the client is a double that
    only records the call). \<open>deletes\<close> counts the deletes accepted so far, and the
    accepted delete number \<open>k\<close> (from 0) removes the resource at once when \<open>removes k\<close>
    holds and leaves it in the store otherwise;
  \<^item> \<open>rand\<close>: the state of \<^verbatim>\<open>rand.Reader\<close>;
  \<^item> \<open>logs\<close>: what \<^verbatim>\<open>glog\<close> has written.
  Calls are sequential: no other actor changes the store between two calls of one
  operation.
\<close>

datatype severity = INFO | ERROR

record world =
  csrs :: "string \<rightharpoonup> CertificateSigningRequest"
  secrets :: "string \<times> string \<rightharpoonup> Secret"
  next_uid :: nat
  faults :: "error option list"
  removes :: "nat \<Rightarrow> bool"
  deletes :: nat
  rand :: nat
  logs :: "(severity \<times> string) list"

definition glog_Infof :: "world \<Rightarrow> string \<Rightarrow> world" where
  "glog_Infof w msg = w\<lparr>logs := logs w @ [(INFO, msg)]\<rparr>"

definition glog_Errorf :: "world \<Rightarrow> string \<Rightarrow> world" where
  "glog_Errorf w msg = w\<lparr>logs := logs w @ [(ERROR, msg)]\<rparr>"

text \<open>
  The errors of the API machinery name the resource with the verb \<^verbatim>\<open>%q\<close>, which for
  a resource name (lower-case letters, digits, hyphens and dots) puts it between double
  quotes.
\<close>

definition quoted :: "string \<Rightarrow> string" where
  "quoted name = CHR 0x22 # name @ [CHR 0x22]"

text \<open>Every API call takes the next fault slot.\<close>

definition api_call :: "world \<Rightarrow> error option \<times> world" where
  "api_call w =
     (case faults w of
        [] \<Rightarrow> (None, w)
      | f # fs \<Rightarrow> (f, w\<lparr>faults := fs\<rparr>))"

subsection \<open>Secrets: \<^verbatim>\<open>kubeCli.CoreV1().Secrets(ns)\<close>\<close>

definition Secrets_Get :: "world \<Rightarrow> string \<Rightarrow> string \<Rightarrow> (error + Secret) \<times> world" where
  "Secrets_Get w ns name =
     (case api_call w of
        (Some err, w1) \<Rightarrow> (Inl err, w1)
      | (None, w1) \<Rightarrow>
          (case secrets w1 (ns, name) of
             None \<Rightarrow> (Inl (StatusError NotFound (''secrets '' @ quoted name @ '' not found'')), w1)
           | Some s \<Rightarrow> (Inr s, w1)))"

definition Secrets_Create :: "world \<Rightarrow> string \<Rightarrow> Secret \<Rightarrow> (error + Secret) \<times> world" where
  "Secrets_Create w ns s =
     (case api_call w of
        (Some err, w1) \<Rightarrow> (Inl err, w1)
      | (None, w1) \<Rightarrow>
          (case secrets w1 (ns, secret_Name s) of
             Some old \<Rightarrow>
               (Inl (StatusError AlreadyExists (''secrets '' @ quoted (secret_Name s) @ '' already exists'')), w1)
           | None \<Rightarrow> (Inr s, w1\<lparr>secrets := (secrets w1)((ns, secret_Name s) \<mapsto> s)\<rparr>)))"

subsection \<open>CSR resources: \<^verbatim>\<open>kubeCli.Certificates().CertificateSigningRequests()\<close>\<close>

definition CSRs_Get :: "world \<Rightarrow> string \<Rightarrow> (error + CertificateSigningRequest) \<times> world" where
  "CSRs_Get w name =
     (case api_call w of
        (Some err, w1) \<Rightarrow> (Inl err, w1)
      | (None, w1) \<Rightarrow>
          (case csrs w1 name of
             None \<Rightarrow>
               (Inl (StatusError NotFound
                  (''certificatesigningrequests.certificates.k8s.io '' @ quoted name
                   @ '' not found'')), w1)
           | Some c \<Rightarrow> (Inr c, w1)))"

text \<open>
  On create the server gives the resource its identity and an empty status, stores it and
  answers with what it stored.
\<close>

definition CSRs_Create ::
  "world \<Rightarrow> CertificateSigningRequest \<Rightarrow> (error + CertificateSigningRequest) \<times> world" where
  "CSRs_Create w c =
     (case api_call w of
        (Some err, w1) \<Rightarrow> (Inl err, w1)
      | (None, w1) \<Rightarrow>
          (case csrs w1 (csr_Name c) of
             Some old \<Rightarrow>
               (Inl (StatusError AlreadyExists
                  (''certificatesigningrequests.certificates.k8s.io '' @ quoted (csr_Name c)
                   @ '' already exists'')), w1)
           | None \<Rightarrow>
               (let stored = c\<lparr>csr_UID := next_uid w1, csr_Conditions := [],
                                csr_Certificate := None\<rparr>
                in (Inr stored,
                    w1\<lparr>csrs := (csrs w1)(csr_Name c \<mapsto> stored),
                       next_uid := Suc (next_uid w1)\<rparr>))))"

text \<open>
  A delete fails when the call fails or the resource is not there; otherwise the server
  accepts it, and removes the resource now or not, as \<open>removes\<close> says.
\<close>

definition CSRs_Delete :: "world \<Rightarrow> string \<Rightarrow> error option \<times> world" where
  "CSRs_Delete w name =
     (case api_call w of
        (Some err, w1) \<Rightarrow> (Some err, w1)
      | (None, w1) \<Rightarrow>
          (case csrs w1 name of
             None \<Rightarrow>
               (Some (StatusError NotFound
                  (''certificatesigningrequests.certificates.k8s.io '' @ quoted name
                   @ '' not found'')), w1)
           | Some c \<Rightarrow>
               (None,
                if removes w1 (deletes w1)
                then w1\<lparr>csrs := (csrs w1)(name := None), deletes := Suc (deletes w1)\<rparr>
                else w1\<lparr>deletes := Suc (deletes w1)\<rparr>)))"

text \<open>The approval subresource replaces the conditions of the stored resource.\<close>

definition CSRs_UpdateApproval ::
  "world \<Rightarrow> CertificateSigningRequest \<Rightarrow> (error + CertificateSigningRequest) \<times> world" where
  "CSRs_UpdateApproval w c =
     (case api_call w of
        (Some err, w1) \<Rightarrow> (Inl err, w1)
      | (None, w1) \<Rightarrow>
          (case csrs w1 (csr_Name c) of
             None \<Rightarrow>
               (Inl (StatusError NotFound
                  (''certificatesigningrequests.certificates.k8s.io '' @ quoted (csr_Name c)
                   @ '' not found'')), w1)
           | Some old \<Rightarrow>
               (let stored = old\<lparr>csr_Conditions := csr_Conditions c\<rparr>
                in (Inr stored, w1\<lparr>csrs := (csrs w1)(csr_Name c \<mapsto> stored)\<rparr>))))"

text \<open>
  Opening a watch either fails or yields the channel; what the channel then delivers is
  the schedule given to \<open>Create\<close>.
\<close>

definition CSRs_Watch :: "world \<Rightarrow> string \<Rightarrow> error option \<times> world" where
  "CSRs_Watch w fieldSelector = api_call w"

section \<open>Libraries the code calls\<close>

text \<open>
  The Go standard library's PEM, X.509, TLS, RSA and IP-address functions, and
  \<^verbatim>\<open>certutil.ReadCACerts\<close>, are parameters of the model: one record of functions, handed to
  every operation that calls them. The types \<open>'cert\<close>, \<open>'pool\<close> and \<open>'priv\<close> stand for
  \<^verbatim>\<open>*x509.Certificate\<close>, \<^verbatim>\<open>*x509.CertPool\<close> and \<^verbatim>\<open>*rsa.PrivateKey\<close>.
  \<^item> \<open>pem_Decode\<close> gives the bytes of the first PEM block, \<open>None\<close> when there is no block;
  \<^item> \<open>net_ParseIP\<close> gives \<open>None\<close> (Go's nil) for a string that is not an IP address;
  \<^item> the two functions that read \<^verbatim>\<open>rand.Reader\<close> take its state and return the new one.

  Modelled from the spec: \<^verbatim>\<open>certutil.ReadCACerts\<close> is not among the source files; the
  spec gives it as "ReadTrustedRoots() \<rightarrow> root certificate pool | error".
\<close>

datatype ExtKeyUsage = ExtKeyUsageClientAuth | ExtKeyUsageServerAuth

record pkix_Name =
  Organization :: "string list"
  OrganizationalUnit :: "string list"
  CommonName :: string

record CertificateRequest =
  Subject :: pkix_Name
  DNSNames :: "string list"
  IPAddresses :: "bytes option list"

record ('cert, 'pool, 'priv) golib =
  pem_Decode :: "bytes \<Rightarrow> bytes option"
  pem_EncodeToMemory :: "string \<Rightarrow> bytes \<Rightarrow> bytes"
  x509_ParseCertificate :: "bytes \<Rightarrow> error + 'cert"
  ReadCACerts :: "error + 'pool"
  x509_Verify :: "'cert \<Rightarrow> 'pool \<Rightarrow> ExtKeyUsage list \<Rightarrow> error option"
  tls_X509KeyPair :: "bytes \<Rightarrow> bytes \<Rightarrow> error option"
  net_ParseIP :: "string \<Rightarrow> bytes option"
  rsa_GenerateKey :: "nat \<Rightarrow> nat \<Rightarrow> (error + 'priv) \<times> nat"
  x509_MarshalPKCS1PrivateKey :: "'priv \<Rightarrow> bytes"
  x509_CreateCertificateRequest ::
    "nat \<Rightarrow> CertificateRequest \<Rightarrow> 'priv \<Rightarrow> (error + bytes) \<times> nat"

section \<open>Package crypto (pkg/util/crypto/certs.go)\<close>

definition rsaKeySize :: nat where
  "rsaKeySize = 2048"

definition newPrivateKey ::
  "('cert, 'pool, 'priv) golib \<Rightarrow> nat \<Rightarrow> nat \<Rightarrow> (error + 'priv) \<times> nat" where
  "newPrivateKey lib r size' =
     (case rsa_GenerateKey lib r size' of
        (Inl err, r1) \<Rightarrow> (Inl err, r1)
      | (Inr privateKey, r1) \<Rightarrow> (Inr privateKey, r1))"

definition convertKeyToPEM :: "('cert, 'pool, 'priv) golib \<Rightarrow> string \<Rightarrow> 'priv \<Rightarrow> bytes" where
  "convertKeyToPEM lib blockType dataBytes =
     pem_EncodeToMemory lib blockType (x509_MarshalPKCS1PrivateKey lib dataBytes)"

text \<open>
  The loop of \<^verbatim>\<open>NewCSR\<close> over \<^verbatim>\<open>IPList\<close>: each string is parsed and the result appended
  to \<^verbatim>\<open>ipAddrList\<close>, whatever \<^verbatim>\<open>net.ParseIP\<close> returned.
\<close>

fun ipAddrList_loop ::
  "('cert, 'pool, 'priv) golib \<Rightarrow> string list \<Rightarrow> bytes option list \<Rightarrow> bytes option list" where
  "ipAddrList_loop lib [] ipAddrList = ipAddrList"
| "ipAddrList_loop lib (ip # IPList) ipAddrList =
     ipAddrList_loop lib IPList (ipAddrList @ [net_ParseIP lib ip])"

definition csrTemplate ::
  "('cert, 'pool, 'priv) golib \<Rightarrow> string \<Rightarrow> string list \<Rightarrow> string list \<Rightarrow> CertificateRequest" where
  "csrTemplate lib commonName hostList IPList =
     \<lparr>Subject = \<lparr>Organization = [''PingCAP''], OrganizationalUnit = [''TiDB Operator''],
                 CommonName = commonName\<rparr>,
      DNSNames = hostList,
      IPAddresses = ipAddrList_loop lib IPList []\<rparr>"

text \<open>The result is the raw request and the PEM of the key, or the error; and the new state
  of the random source.\<close>

definition NewCSR ::
  "('cert, 'pool, 'priv) golib \<Rightarrow> nat \<Rightarrow> string \<Rightarrow> string list \<Rightarrow> string list
     \<Rightarrow> (error + bytes \<times> bytes) \<times> nat" where
  "NewCSR lib r commonName hostList IPList =
     (case newPrivateKey lib r rsaKeySize of
        (Inl err, r1) \<Rightarrow> (Inl err, r1)
      | (Inr privKey, r1) \<Rightarrow>
          (case x509_CreateCertificateRequest lib r1
                  (csrTemplate lib commonName hostList IPList) privKey of
             (Inl err, r2) \<Rightarrow> (Inl err, r2)
           | (Inr csr, r2) \<Rightarrow> (Inr (csr, convertKeyToPEM lib ''RSA PRIVATE KEY'' privKey), r2)))"

section \<open>Package controller (pkg/controller/cert\_control.go)\<close>

subsection \<open>Secrets\<close>

definition LoadFromSecret ::
  "world \<Rightarrow> string \<Rightarrow> string \<Rightarrow> (error + bytes \<times> bytes) \<times> world" where
  "LoadFromSecret w ns secretName =
     (case Secrets_Get w ns secretName of
        (Inl err, w1) \<Rightarrow> (Inl err, w1)
      | (Inr secret, w1) \<Rightarrow>
          (Inr (index_data (secret_Data secret) ''cert'', index_data (secret_Data secret) ''key''),
           w1))"

definition secretName_of :: "string \<Rightarrow> string \<Rightarrow> string" where
  "secretName_of instance suffix = instance @ ''-'' @ suffix"

definition SaveToSecret ::
  "world \<Rightarrow> string \<Rightarrow> string \<Rightarrow> string \<Rightarrow> string \<Rightarrow> bytes \<Rightarrow> bytes \<Rightarrow> error option \<times> world" where
  "SaveToSecret w ns instance component suffix cert key =
     (let secretName = secretName_of instance suffix;
          secret = \<lparr>secret_Name = secretName,
                    secret_Labels = Map.empty
                      (NamespaceLabelKey \<mapsto> ns,
                       ManagedByLabelKey \<mapsto> index_map label_New ManagedByLabelKey,
                       InstanceLabelKey \<mapsto> instance,
                       ComponentLabelKey \<mapsto> component),
                    secret_Data = [''cert'' \<mapsto> cert, ''key'' \<mapsto> key]\<rparr>
      in case Secrets_Create w ns secret of
           (Inl err, w1) \<Rightarrow>
             (Some err,
              glog_Infof w1 (''save cert to secret '' @ ns @ ''/'' @ secretName @ '', error: ''
                              @ fmt_v (Some err)))
         | (Inr created, w1) \<Rightarrow>
             (None,
              glog_Infof w1 (''save cert to secret '' @ ns @ ''/'' @ secretName @ '', error: ''
                              @ fmt_v None)))"

text \<open>
  \<^verbatim>\<open>CheckSecret\<close> returns a bool. The first \<^verbatim>\<open>glog.Errorf\<close> is given one argument more
  than its format has verbs (\<^verbatim>\<open>err\<close>, nil at that point), which \<^verbatim>\<open>fmt\<close> prints after the
  message.
\<close>

definition CheckSecret ::
  "('cert, 'pool, 'priv) golib \<Rightarrow> world \<Rightarrow> string \<Rightarrow> string \<Rightarrow> bool \<times> world" where
  "CheckSecret lib w ns secretName =
     (case LoadFromSecret w ns secretName of
        (Inl err, w1) \<Rightarrow> (False, w1)
      | (Inr (certBytes, keyBytes), w1) \<Rightarrow>
          (case pem_Decode lib certBytes of
             None \<Rightarrow>
               (False,
                glog_Errorf w1 (''certificate validation failed for ['' @ ns @ ''/'' @ secretName
                  @ ''], can not decode cert to PEM'' @ ''%!(EXTRA <nil>)''))
           | Some block \<Rightarrow>
               (case x509_ParseCertificate lib block of
                  Inl err \<Rightarrow>
                    (False,
                     glog_Errorf w1 (''certificate validation failed for ['' @ ns @ ''/''
                       @ secretName @ ''], can not parse cert, '' @ Error err))
                | Inr cert \<Rightarrow>
                    (case ReadCACerts lib of
                       Inl err \<Rightarrow>
                         (False,
                          glog_Errorf w1 (''certificate validation failed for ['' @ ns @ ''/''
                            @ secretName @ ''], error loading CAs, '' @ Error err))
                     | Inr rootCAs \<Rightarrow>
                         (case x509_Verify lib cert rootCAs
                                 [ExtKeyUsageClientAuth, ExtKeyUsageServerAuth] of
                            Some err \<Rightarrow>
                              (False,
                               glog_Errorf w1 (''certificate validation failed for ['' @ ns
                                 @ ''/'' @ secretName @ ''], '' @ Error err))
                          | None \<Rightarrow>
                              (case tls_X509KeyPair lib certBytes keyBytes of
                                 Some err \<Rightarrow>
                                   (False,
                                    glog_Errorf w1 (''certificate validation failed for ['' @ ns
                                      @ ''/'' @ secretName @ ''], error loading key pair, ''
                                      @ Error err))
                               | None \<Rightarrow> (True, w1)))))))"

subsection \<open>Submitting the signing request\<close>

definition getCSR ::
  "world \<Rightarrow> string \<Rightarrow> string \<Rightarrow> string
     \<Rightarrow> (error + CertificateSigningRequest option) \<times> world" where
  "getCSR w ns instance csrName =
     (case CSRs_Get w csrName of
        (Inl err, w1) \<Rightarrow> (if IsNotFound err then (Inr None, w1) else (Inl err, w1))
      | (Inr csr, w1) \<Rightarrow>
          (if index_map (csr_Labels csr) NamespaceLabelKey = ns \<and>
              index_map (csr_Labels csr) ManagedByLabelKey
                = index_map label_New ManagedByLabelKey \<and>
              index_map (csr_Labels csr) InstanceLabelKey = instance
           then (Inr (Some csr), w1)
           else (Inl (ErrorString (''CSR '' @ ns @ ''/'' @ csrName
                   @ '' already exist, but not created by tidb-operator, skip it'')), w1)))"

text \<open>The resource \<^verbatim>\<open>sendCSR\<close> builds, with its three labels set.\<close>

definition csrResource ::
  "('cert, 'pool, 'priv) golib \<Rightarrow> string \<Rightarrow> string \<Rightarrow> bytes \<Rightarrow> string
     \<Rightarrow> CertificateSigningRequest" where
  "csrResource lib ns instance rawCSR csrName =
     \<lparr>csr_Kind = ''CertificateSigningRequest'',
      csr_Name = csrName,
      csr_UID = 0,
      csr_Labels = Map.empty
        (NamespaceLabelKey \<mapsto> ns,
         ManagedByLabelKey \<mapsto> index_map label_New ManagedByLabelKey,
         InstanceLabelKey \<mapsto> instance),
      csr_Request = pem_EncodeToMemory lib ''CERTIFICATE REQUEST'' rawCSR,
      csr_Usages = [UsageClientAuth, UsageServerAuth],
      csr_Conditions = [],
      csr_Certificate = None\<rparr>"

text \<open>
  The end of \<^verbatim>\<open>sendCSR\<close>, reached when no resource of that name was found: build the
  resource, create it, log.
\<close>

definition sendCSR_create ::
  "('cert, 'pool, 'priv) golib \<Rightarrow> world \<Rightarrow> string \<Rightarrow> string \<Rightarrow> bytes \<Rightarrow> string
     \<Rightarrow> (error + CertificateSigningRequest) \<times> world" where
  "sendCSR_create lib w ns instance rawCSR csrName =
     (case CSRs_Create w (csrResource lib ns instance rawCSR csrName) of
        (Inl err, w1) \<Rightarrow>
          (Inl (ErrorString (''failed to create CSR for ['' @ ns @ ''/'' @ instance
                  @ '']: '' @ csrName @ '', error: '' @ Error err)), w1)
      | (Inr resp, w1) \<Rightarrow>
          (Inr resp,
           glog_Infof w1 (''CSR created for ['' @ ns @ ''/'' @ instance @ '']: ''
             @ csrName)))"

text \<open>
  \<^verbatim>\<open>sendCSR\<close> calls itself after each delete of a resource of its own that the server
  accepted, with no count of the calls. Whether it returns depends on the server: the
  result is \<open>None\<close> when the calls never end.
\<close>

partial_function (option) sendCSR ::
  "('cert, 'pool, 'priv) golib \<Rightarrow> world \<Rightarrow> string \<Rightarrow> string \<Rightarrow> bytes \<Rightarrow> string
     \<Rightarrow> ((error + CertificateSigningRequest) \<times> world) option" where
  "sendCSR lib w ns instance rawCSR csrName =
     (case getCSR w ns instance csrName of
        (Inl err, w1) \<Rightarrow>
          Some (Inl (ErrorString (''failed to create CSR for ['' @ ns @ ''/'' @ instance
                       @ '']: '' @ csrName @ '', error: '' @ Error err)), w1)
      | (Inr (Some found), w1) \<Rightarrow>
          (case CSRs_Delete
                  (glog_Infof w1 (''found exist CSR '' @ ns @ ''/'' @ csrName
                     @ '' created by tidb-operator, overwriting'')) csrName of
             (Some err, w2) \<Rightarrow>
               Some (Inl (ErrorString (''failed to delete exist old CSR for ['' @ ns @ ''/''
                            @ instance @ '']: '' @ csrName @ '', error: '' @ Error err)), w2)
           | (None, w2) \<Rightarrow>
               sendCSR lib
                 (glog_Infof w2 (''exist old CSR deleted for ['' @ ns @ ''/'' @ instance
                    @ '']: '' @ csrName))
                 ns instance rawCSR csrName)
      | (Inr None, w1) \<Rightarrow> Some (sendCSR_create lib w1 ns instance rawCSR csrName))"

text \<open>
  \<^verbatim>\<open>approveCSR\<close> appends the condition to the resource behind the pointer it is given,
  so the caller's \<^verbatim>\<open>csr\<close> has it whether the update succeeds or not: the resource is the
  second component of the result.
\<close>

definition approveCSR ::
  "world \<Rightarrow> CertificateSigningRequest
     \<Rightarrow> error option \<times> CertificateSigningRequest \<times> world" where
  "approveCSR w csr =
     (let csr' = csr\<lparr>csr_Conditions := csr_Conditions csr @
                   [\<lparr>cond_Type = CertificateApproved, cond_Reason = ''AutoApproved'',
                     cond_Message = ''Auto approved by TiDB Operator''\<rparr>]\<rparr>
      in case CSRs_UpdateApproval w csr' of
           (Inl err, w1) \<Rightarrow>
             (Some (ErrorString (''error updating approval for csr: '' @ Error err)), csr', w1)
         | (Inr updated, w1) \<Rightarrow> (None, csr', w1))"

subsection \<open>Create\<close>

text \<open>
  What the \<^verbatim>\<open>select\<close> of the wait loop can see, in the order it happens:
  \<^item> \<open>TenSecondsPass\<close>: ten more seconds have gone by with nothing on the watch channel;
  \<^item> \<open>Deliver event\<close>: the watch channel delivers an event;
  \<^item> \<open>Closed\<close>: the watch channel is closed.
  A schedule that ends without \<open>Closed\<close> leaves the loop blocked in its \<^verbatim>\<open>select\<close>.

  The object of an event is a \<^verbatim>\<open>runtime.Object\<close>; the code asserts it to be a
  \<^verbatim>\<open>*capi.CertificateSigningRequest\<close> without a check, which panics on the status object
  of an error event.
\<close>

datatype EventType = Added | Modified | Deleted | Bookmark | ErrorEvent

datatype runtime_Object = CSRObject CertificateSigningRequest | StatusObject string

record watch_Event =
  event_Type :: EventType
  event_Object :: runtime_Object

datatype occurrence = TenSecondsPass | Deliver watch_Event | Closed

text \<open>
  How a call of \<^verbatim>\<open>Create\<close> ends: it returns (nil or an error), it panics, it stays
  blocked in the \<^verbatim>\<open>select\<close> of its loop, or its call of \<^verbatim>\<open>sendCSR\<close> never returns
  (\<open>Diverged\<close>). The world given with \<open>Diverged\<close> is the one in which \<^verbatim>\<open>sendCSR\<close>
  was called: calls that do not end have no last state.
\<close>

datatype outcome = Returned "error option" | Panicked | Blocked | Diverged

text \<open>
  The body of \<^verbatim>\<open>case event, ok := <-watchCh\<close> for a delivered event, up to its
  decision: \<open>Ignore\<close> is \<^verbatim>\<open>continue\<close>, \<open>Persist cert\<close> enters the branch that saves
  \<^verbatim>\<open>updatedCSR.Status.Certificate\<close>, \<open>Panic\<close> is a failed type assertion or an index out
  of range. The index into the conditions of the event's resource is computed from the
  conditions of \<^verbatim>\<open>csr\<close>, the controller's own copy, in Go's signed \<^verbatim>\<open>int\<close>.
\<close>

datatype action = Ignore | Persist bytes | Panic

definition event_action :: "CertificateSigningRequest \<Rightarrow> watch_Event \<Rightarrow> action" where
  "event_action csr event =
     (case event_Object event of
        StatusObject st \<Rightarrow> Panic
      | CSRObject updatedCSR \<Rightarrow>
          (if length (csr_Conditions updatedCSR) = 0 then Ignore
           else
             (let i = int (length (csr_Conditions csr)) - 1 in
              if i < 0 \<or> int (length (csr_Conditions updatedCSR)) \<le> i then Panic
              else
                (let approveCond = cond_Type (csr_Conditions updatedCSR ! nat i) in
                 case csr_Certificate updatedCSR of
                   None \<Rightarrow> Ignore
                 | Some cert \<Rightarrow>
                     (if csr_UID updatedCSR = csr_UID csr \<and> approveCond = CertificateApproved
                      then Persist cert else Ignore)))))"

text \<open>
  The loop. \<open>tick\<close> tells whether the channel of \<^verbatim>\<open>time.After(time.Second * 10)\<close> still
  has its value to deliver: \<^verbatim>\<open>time.After\<close> sends the time once, after the duration, so
  the first \<open>TenSecondsPass\<close> makes \<^verbatim>\<open>case <-tick\<close> ready and later ones find the channel
  empty for good.
\<close>

fun Create_loop ::
  "string \<Rightarrow> string \<Rightarrow> string \<Rightarrow> string \<Rightarrow> string \<Rightarrow> CertificateSigningRequest \<Rightarrow> bytes
     \<Rightarrow> bool \<Rightarrow> occurrence list \<Rightarrow> world \<Rightarrow> outcome \<times> world" where
  "Create_loop ns instance component suffix csrName csr key tick [] w = (Blocked, w)"
| "Create_loop ns instance component suffix csrName csr key tick (TenSecondsPass # sched) w =
     (if tick
      then Create_loop ns instance component suffix csrName csr key False sched
             (glog_Infof w (''CSR still not approved for ['' @ ns @ ''/'' @ instance @ '']: ''
                @ csrName @ '', retry later''))
      else Create_loop ns instance component suffix csrName csr key False sched w)"
| "Create_loop ns instance component suffix csrName csr key tick (Closed # sched) w =
     (Returned (Some (ErrorString (''fail to get signed certificate for '' @ csrName))), w)"
| "Create_loop ns instance component suffix csrName csr key tick (Deliver event # sched) w =
     (case event_action csr event of
        Ignore \<Rightarrow> Create_loop ns instance component suffix csrName csr key tick sched w
      | Panic \<Rightarrow> (Panicked, w)
      | Persist cert \<Rightarrow>
          (case SaveToSecret
                  (glog_Infof w (''signed certificate for ['' @ ns @ ''/'' @ instance @ '']: ''
                     @ csrName))
                  ns instance component suffix cert key of
             (None, w1) \<Rightarrow>
               (case CSRs_Delete w1 csrName of (err, w2) \<Rightarrow> (Returned err, w2))
           | (Some err, w1) \<Rightarrow> (Returned (Some err), w1)))"

definition csrName_of :: "string \<Rightarrow> string \<Rightarrow> string" where
  "csrName_of instance suffix = (if suffix = [] then instance else instance @ ''-'' @ suffix)"

text \<open>
  \<^verbatim>\<open>Create\<close> up to the loop: the call ends early (\<open>Inl\<close>, with how it ends), or the
  loop starts with the controller's copy of the resource and the key (\<open>Inr\<close>).
\<close>

definition Create_until_watch ::
  "('cert, 'pool, 'priv) golib \<Rightarrow> world \<Rightarrow> string \<Rightarrow> string \<Rightarrow> string \<Rightarrow> string list
     \<Rightarrow> string list \<Rightarrow> string \<Rightarrow> string
     \<Rightarrow> (outcome + CertificateSigningRequest \<times> bytes) \<times> world" where
  "Create_until_watch lib w ns instance commonName hostList IPList component suffix =
     (let csrName = csrName_of instance suffix in
      case CheckSecret lib w ns csrName of
        (True, w1) \<Rightarrow>
          (Inl (Returned None),
           glog_Infof w1 (''Secret '' @ csrName
             @ '' already exist, reusing the key pair. TidbCluster: '' @ ns @ ''/'' @ csrName))
      | (False, w1) \<Rightarrow>
          (case NewCSR lib (rand w1) commonName hostList IPList of
             (Inl err, r) \<Rightarrow>
               (Inl (Returned (Some (ErrorString (''fail to generate new key and certificate for ''
                        @ ns @ ''/'' @ csrName @ '', '' @ Error err)))),
                w1\<lparr>rand := r\<rparr>)
           | (Inr (rawCSR, key), r) \<Rightarrow>
               (case sendCSR lib (w1\<lparr>rand := r\<rparr>) ns instance rawCSR csrName of
                  None \<Rightarrow> (Inl Diverged, w1\<lparr>rand := r\<rparr>)
                | Some (Inl err, w2) \<Rightarrow> (Inl (Returned (Some err)), w2)
                | Some (Inr created, w2) \<Rightarrow>
                    (case approveCSR w2 created of
                       (Some err, csr, w3) \<Rightarrow> (Inl (Returned (Some err)), w3)
                     | (None, csr, w3) \<Rightarrow>
                         (case CSRs_Watch w3 (''metadata.name='' @ csrName) of
                            (Some err, w4) \<Rightarrow>
                              (Inl (Returned (Some err)),
                               glog_Errorf w4 (''error watch CSR for ['' @ ns @ ''/'' @ instance
                                 @ '']: '' @ csrName))
                          | (None, w4) \<Rightarrow> (Inr (csr, key), w4))))))"

definition Create ::
  "('cert, 'pool, 'priv) golib \<Rightarrow> world \<Rightarrow> string \<Rightarrow> string \<Rightarrow> string \<Rightarrow> string list
     \<Rightarrow> string list \<Rightarrow> string \<Rightarrow> string \<Rightarrow> occurrence list \<Rightarrow> outcome \<times> world" where
  "Create lib w ns instance commonName hostList IPList component suffix sched =
     (case Create_until_watch lib w ns instance commonName hostList IPList component suffix of
        (Inl ended, w1) \<Rightarrow> (ended, w1)
      | (Inr (csr, key), w1) \<Rightarrow>
          Create_loop ns instance component suffix (csrName_of instance suffix) csr key True
            sched w1)"

section \<open>Notions the statements use\<close>

text \<open>The comparison of labels that \<^verbatim>\<open>getCSR\<close> makes.\<close>

definition ownership_labels_match :: "string \<Rightarrow> string \<Rightarrow> CertificateSigningRequest \<Rightarrow> bool" where
  "ownership_labels_match ns inst c =
     (index_map (csr_Labels c) NamespaceLabelKey = ns \<and>
      index_map (csr_Labels c) ManagedByLabelKey = index_map label_New ManagedByLabelKey \<and>
      index_map (csr_Labels c) InstanceLabelKey = inst)"

text \<open>
  An occurrence after which the wait goes on: ten seconds passing, or an event that
  is ignored. The close of the channel, an event that is persisted and an event that
  panics all end the wait.
\<close>

definition loop_continues :: "CertificateSigningRequest \<Rightarrow> occurrence \<Rightarrow> bool" where
  "loop_continues csr occ =
     (case occ of
        TenSecondsPass \<Rightarrow> True
      | Deliver event \<Rightarrow> event_action csr event = Ignore
      | Closed \<Rightarrow> False)"

text \<open>The message of \<^verbatim>\<open>case <-tick\<close>.\<close>

definition still_pending :: "string \<Rightarrow> string \<Rightarrow> string \<Rightarrow> string" where
  "still_pending ns inst csrName =
     ''CSR still not approved for ['' @ ns @ ''/'' @ inst @ '']: '' @ csrName @ '', retry later''"

text \<open>The messages of the other log calls that the statements name.\<close>

definition signed_message :: "string \<Rightarrow> string \<Rightarrow> string \<Rightarrow> string" where
  "signed_message ns inst csrName =
     ''signed certificate for ['' @ ns @ ''/'' @ inst @ '']: '' @ csrName"

definition reuse_message :: "string \<Rightarrow> string \<Rightarrow> string" where
  "reuse_message ns csrName =
     ''Secret '' @ csrName @ '' already exist, reusing the key pair. TidbCluster: '' @ ns
       @ ''/'' @ csrName"

text \<open>
  The checks \<^verbatim>\<open>CheckSecret\<close> makes on the two fields of a secret it has read, as one
  predicate on the bytes.
\<close>

definition credential_usable ::
  "('cert, 'pool, 'priv) golib \<Rightarrow> bytes \<Rightarrow> bytes \<Rightarrow> bool" where
  "credential_usable lib certBytes keyBytes =
     (case pem_Decode lib certBytes of
        None \<Rightarrow> False
      | Some block \<Rightarrow>
          (case x509_ParseCertificate lib block of
             Inl err \<Rightarrow> False
           | Inr cert \<Rightarrow>
               (case ReadCACerts lib of
                  Inl err \<Rightarrow> False
                | Inr rootCAs \<Rightarrow>
                    x509_Verify lib cert rootCAs [ExtKeyUsageClientAuth, ExtKeyUsageServerAuth]
                      = None \<and>
                    tls_X509KeyPair lib certBytes keyBytes = None)))"

text \<open>
  The spec's words for an event that ends the wait with a signature: the identity of its
  resource is that of the resource just created, its latest condition has type
  "Approved", and its status carries non-empty certificate bytes.
\<close>

definition spec_qualifying ::
  "CertificateSigningRequest \<Rightarrow> CertificateSigningRequest \<Rightarrow> bool" where
  "spec_qualifying csr updatedCSR =
     (csr_UID updatedCSR = csr_UID csr \<and>
      csr_Conditions updatedCSR \<noteq> [] \<and>
      cond_Type (last (csr_Conditions updatedCSR)) = ''Approved'' \<and>
      (case csr_Certificate updatedCSR of None \<Rightarrow> False | Some cert \<Rightarrow> cert \<noteq> []))"

text \<open>
  A signature as the code accepts it, where the condition it reads is the latest one: the
  identity is that of the resource just created, the latest condition has type
  "Approved", and the certificate is not nil (it may be empty).
\<close>

definition accepted_signature ::
  "CertificateSigningRequest \<Rightarrow> CertificateSigningRequest \<Rightarrow> bool" where
  "accepted_signature csr updatedCSR =
     (csr_UID updatedCSR = csr_UID csr \<and>
      csr_Conditions updatedCSR \<noteq> [] \<and>
      cond_Type (last (csr_Conditions updatedCSR)) = ''Approved'' \<and>
      csr_Certificate updatedCSR \<noteq> None)"

text \<open>
  An occurrence that brings no such signature: ten seconds passing, or an event that
  carries a CSR resource with no conditions or with as many as the controller's copy
  has, and that is no accepted signature.
\<close>

definition brings_no_signature :: "CertificateSigningRequest \<Rightarrow> occurrence \<Rightarrow> bool" where
  "brings_no_signature csr occ =
     (case occ of
        TenSecondsPass \<Rightarrow> True
      | Deliver event \<Rightarrow>
          (case event_Object event of
             StatusObject st \<Rightarrow> False
           | CSRObject updatedCSR \<Rightarrow>
               (csr_Conditions updatedCSR = [] \<or>
                length (csr_Conditions updatedCSR) = length (csr_Conditions csr)) \<and>
               \<not> accepted_signature csr updatedCSR)
      | Closed \<Rightarrow> False)"

section \<open>A double of the libraries and a sample cluster\<close>

text \<open>
  For the concrete runs below. A PEM block is the byte 45 followed by its DER bytes; a
  certificate's DER is the byte of its issuer followed by the number of its key, the
  trusted issuer being 1; a private key is a number, drawn from the random source; the
  only address the parser knows is 10.0.0.5. \<open>empty_world\<close> is a cluster with nothing in
  it, whose server removes a resource with every delete it accepts. \<open>signed_event\<close> is what a signer sends for the request with the given identity
  once it is approved and signed, \<open>pending_event\<close> what the server sends when the request
  is added; \<open>approved_copy\<close> is the controller's copy of a fresh request after
  \<^verbatim>\<open>approveCSR\<close>. \<open>foreign_csr\<close> is a request of another manager under the name this
  controller derives, \<open>own_csr\<close> one left there by an earlier run of this controller; \<open>usable_secret\<close> holds a certificate of the trusted issuer and its
  key, the secret of \<open>stale_secret_world\<close> a certificate of another issuer.
\<close>

definition stub_lib :: "(bytes, unit, nat) golib" where
  "stub_lib =
     \<lparr>pem_Decode = (\<lambda>b. case b of [] \<Rightarrow> None | x # der \<Rightarrow> if x = 45 then Some der else None),
      pem_EncodeToMemory = (\<lambda>t der. 45 # der),
      x509_ParseCertificate =
        (\<lambda>der. if der = [] then Inl (ErrorString ''x509: malformed certificate'') else Inr der),
      ReadCACerts = Inr (),
      x509_Verify =
        (\<lambda>cert roots usages.
           case cert of
             [] \<Rightarrow> Some (ErrorString ''x509: certificate signed by unknown authority'')
           | issuer # rest \<Rightarrow>
               if issuer = 1 then None
               else Some (ErrorString ''x509: certificate signed by unknown authority'')),
      tls_X509KeyPair =
        (\<lambda>certPEM keyPEM.
           if certPEM \<noteq> [] \<and> keyPEM \<noteq> [] \<and> last certPEM = last keyPEM then None
           else Some (ErrorString ''tls: private key does not match public key'')),
      net_ParseIP = (\<lambda>s. if s = ''10.0.0.5'' then Some [10, 0, 0, 5] else None),
      rsa_GenerateKey = (\<lambda>r bits. (Inr r, Suc r)),
      x509_MarshalPKCS1PrivateKey = (\<lambda>k. [k]),
      x509_CreateCertificateRequest = (\<lambda>r template k. (Inr [k], Suc r))\<rparr>"

definition empty_world :: world where
  "empty_world =
     \<lparr>csrs = Map.empty, secrets = Map.empty, next_uid = 1, faults = [],
      removes = (\<lambda>k. True), deletes = 0, rand = 7, logs = []\<rparr>"

definition signed_event :: "string \<Rightarrow> nat \<Rightarrow> bytes \<Rightarrow> watch_Event" where
  "signed_event name uid cert =
     \<lparr>event_Type = Modified,
      event_Object = CSRObject
        \<lparr>csr_Kind = ''CertificateSigningRequest'', csr_Name = name, csr_UID = uid,
         csr_Labels = Map.empty, csr_Request = [],
         csr_Usages = [UsageClientAuth, UsageServerAuth],
         csr_Conditions = [\<lparr>cond_Type = ''Approved'', cond_Reason = ''AutoApproved'',
                            cond_Message = ''Auto approved by TiDB Operator''\<rparr>],
         csr_Certificate = Some cert\<rparr>\<rparr>"

definition pending_event :: "string \<Rightarrow> nat \<Rightarrow> watch_Event" where
  "pending_event name uid =
     \<lparr>event_Type = Added,
      event_Object = CSRObject
        \<lparr>csr_Kind = ''CertificateSigningRequest'', csr_Name = name, csr_UID = uid,
         csr_Labels = Map.empty, csr_Request = [],
         csr_Usages = [UsageClientAuth, UsageServerAuth],
         csr_Conditions = [], csr_Certificate = None\<rparr>\<rparr>"

definition approved_copy :: "string \<Rightarrow> nat \<Rightarrow> CertificateSigningRequest" where
  "approved_copy name uid =
     \<lparr>csr_Kind = ''CertificateSigningRequest'', csr_Name = name, csr_UID = uid,
      csr_Labels = Map.empty, csr_Request = [],
      csr_Usages = [UsageClientAuth, UsageServerAuth],
      csr_Conditions = [\<lparr>cond_Type = ''Approved'', cond_Reason = ''AutoApproved'',
                         cond_Message = ''Auto approved by TiDB Operator''\<rparr>],
      csr_Certificate = None\<rparr>"

definition foreign_csr :: CertificateSigningRequest where
  "foreign_csr =
     \<lparr>csr_Kind = ''CertificateSigningRequest'', csr_Name = ''pd-0-peer'', csr_UID = 40,
      csr_Labels = [NamespaceLabelKey \<mapsto> ''db'', ManagedByLabelKey \<mapsto> ''cert-manager'',
                    InstanceLabelKey \<mapsto> ''pd-0''],
      csr_Request = [45, 3],
      csr_Usages = [UsageClientAuth, UsageServerAuth],
      csr_Conditions = [], csr_Certificate = None\<rparr>"

definition own_csr :: CertificateSigningRequest where
  "own_csr =
     \<lparr>csr_Kind = ''CertificateSigningRequest'', csr_Name = ''pd-0-peer'', csr_UID = 40,
      csr_Labels = [NamespaceLabelKey \<mapsto> ''db'', ManagedByLabelKey \<mapsto> ''tidb-operator'',
                    InstanceLabelKey \<mapsto> ''pd-0''],
      csr_Request = [45, 3],
      csr_Usages = [UsageClientAuth, UsageServerAuth],
      csr_Conditions = [], csr_Certificate = None\<rparr>"

definition usable_secret :: Secret where
  "usable_secret =
     \<lparr>secret_Name = ''pd-0-peer'', secret_Labels = Map.empty,
      secret_Data = [''cert'' \<mapsto> [45, 1, 3], ''key'' \<mapsto> [45, 3]]\<rparr>"

definition stale_secret_world :: world where
  "stale_secret_world =
     empty_world\<lparr>secrets :=
       [(''db'', ''pd-0-peer'') \<mapsto>
          \<lparr>secret_Name = ''pd-0-peer'', secret_Labels = Map.empty,
           secret_Data = [''cert'' \<mapsto> [45, 2, 3], ''key'' \<mapsto> [45, 3]]\<rparr>]\<rparr>"

lemmas model_defs = Create_def Create_until_watch_def csrName_of_def CheckSecret_def LoadFromSecret_def
  Secrets_Get_def api_call_def NewCSR_def newPrivateKey_def rsaKeySize_def csrTemplate_def
  convertKeyToPEM_def sendCSR_create_def getCSR_def CSRs_Get_def CSRs_Create_def csrResource_def
  approveCSR_def CSRs_UpdateApproval_def CSRs_Watch_def event_action_def SaveToSecret_def
  secretName_of_def Secrets_Create_def CSRs_Delete_def glog_Infof_def glog_Errorf_def
  index_map_def index_data_def label_New_def NamespaceLabelKey_def ManagedByLabelKey_def
  InstanceLabelKey_def ComponentLabelKey_def CertificateApproved_def

section \<open>What the calls leave of the stores\<close>

lemma csrs_glog_Infof: "csrs (glog_Infof w m) = csrs w"
  by (simp add: glog_Infof_def)

lemma api_call_stores:
  "api_call w = (f, w1) \<Longrightarrow>
     csrs w1 = csrs w \<and> secrets w1 = secrets w \<and> rand w1 = rand w \<and> next_uid w1 = next_uid w"
  by (auto simp: api_call_def split: list.splits)

lemma api_call_deletes:
  "api_call w = (f, w1) \<Longrightarrow> removes w1 = removes w \<and> deletes w1 = deletes w"
  by (auto simp: api_call_def split: list.splits)

lemma getCSR_found:
  "getCSR w ns inst csrName = (Inr (Some c), w1) \<Longrightarrow>
     csrs w csrName = Some c \<and> csrs w1 = csrs w"
  by (auto simp: getCSR_def CSRs_Get_def split: prod.splits option.splits if_splits sum.splits
      dest!: api_call_stores)

lemma logs_only_Infof:
  "csrs (glog_Infof w m) = csrs w" "secrets (glog_Infof w m) = secrets w"
  "rand (glog_Infof w m) = rand w" "next_uid (glog_Infof w m) = next_uid w"
  "faults (glog_Infof w m) = faults w" "removes (glog_Infof w m) = removes w"
  "deletes (glog_Infof w m) = deletes w"
  by (simp_all add: glog_Infof_def)

lemma logs_only_Errorf:
  "csrs (glog_Errorf w m) = csrs w" "secrets (glog_Errorf w m) = secrets w"
  "rand (glog_Errorf w m) = rand w" "next_uid (glog_Errorf w m) = next_uid w"
  "faults (glog_Errorf w m) = faults w"
  by (simp_all add: glog_Errorf_def)

lemma Secrets_Get_stores:
  "Secrets_Get w ns name = (r, w1) \<Longrightarrow>
     csrs w1 = csrs w \<and> secrets w1 = secrets w \<and> rand w1 = rand w \<and> next_uid w1 = next_uid w"
  by (auto simp: Secrets_Get_def split: prod.splits option.splits dest!: api_call_stores)

lemma LoadFromSecret_stores:
  "LoadFromSecret w ns name = (r, w1) \<Longrightarrow>
     csrs w1 = csrs w \<and> secrets w1 = secrets w \<and> rand w1 = rand w \<and> next_uid w1 = next_uid w"
  by (auto simp: LoadFromSecret_def split: prod.splits sum.splits dest!: Secrets_Get_stores)

lemma CheckSecret_stores:
  "CheckSecret lib w ns name = (b, w1) \<Longrightarrow>
     csrs w1 = csrs w \<and> secrets w1 = secrets w \<and> rand w1 = rand w \<and> next_uid w1 = next_uid w"
  by (auto simp: CheckSecret_def logs_only_Errorf
      split: prod.splits sum.splits option.splits dest!: LoadFromSecret_stores)

lemma CSRs_Get_stores:
  "CSRs_Get w name = (r, w1) \<Longrightarrow>
     csrs w1 = csrs w \<and> secrets w1 = secrets w \<and> rand w1 = rand w \<and> next_uid w1 = next_uid w"
  by (auto simp: CSRs_Get_def split: prod.splits option.splits dest!: api_call_stores)

lemma getCSR_stores:
  "getCSR w ns inst name = (r, w1) \<Longrightarrow>
     csrs w1 = csrs w \<and> secrets w1 = secrets w \<and> rand w1 = rand w \<and> next_uid w1 = next_uid w"
  by (auto simp: getCSR_def split: prod.splits sum.splits if_splits dest!: CSRs_Get_stores)

lemma CSRs_Delete_stores:
  "CSRs_Delete w name = (r, w1) \<Longrightarrow> secrets w1 = secrets w \<and> rand w1 = rand w"
  by (auto simp: CSRs_Delete_def split: prod.splits option.splits dest!: api_call_stores)

lemma CSRs_Create_stores:
  "CSRs_Create w c = (r, w1) \<Longrightarrow> secrets w1 = secrets w \<and> rand w1 = rand w"
  by (auto simp: CSRs_Create_def Let_def split: prod.splits option.splits dest!: api_call_stores)

lemma CSRs_UpdateApproval_stores:
  "CSRs_UpdateApproval w c = (r, w1) \<Longrightarrow> secrets w1 = secrets w \<and> rand w1 = rand w"
  by (auto simp: CSRs_UpdateApproval_def Let_def split: prod.splits option.splits dest!: api_call_stores)

lemma approveCSR_stores:
  "approveCSR w c = (r, c', w1) \<Longrightarrow> secrets w1 = secrets w \<and> rand w1 = rand w"
  by (auto simp: approveCSR_def Let_def split: prod.splits sum.splits dest!: CSRs_UpdateApproval_stores)

lemma sendCSR_create_stores:
  "sendCSR_create lib w ns inst rawCSR name = (r, w1) \<Longrightarrow> secrets w1 = secrets w \<and> rand w1 = rand w"
  by (auto simp: sendCSR_create_def logs_only_Infof split: prod.splits sum.splits dest!: CSRs_Create_stores)

lemma sendCSR_stores_snd:
  "sendCSR lib w ns inst rawCSR name = Some y \<Longrightarrow>
     secrets (snd y) = secrets w \<and> rand (snd y) = rand w"
proof (induction rule: sendCSR.raw_induct [rotated 1, consumes 1])
  case (1 sendCSR' lib w ns inst rawCSR csrName y)
  obtain g wa where g: "getCSR w ns inst csrName = (g, wa)"
    by (cases "getCSR w ns inst csrName")
  from getCSR_stores [OF g] have a: "secrets wa = secrets w" "rand wa = rand w" by simp_all
  show ?case
  proof (cases g)
    case (Inl e)
    with g 1(2) a show ?thesis by auto
  next
    case (Inr found)
    show ?thesis
    proof (cases found)
      case None
      with g Inr 1(2) a show ?thesis
        by (cases y) (auto dest!: sendCSR_create_stores)
    next
      case (Some c)
      let ?m1 = "''found exist CSR '' @ ns @ ''/'' @ csrName
                     @ '' created by tidb-operator, overwriting''"
      let ?m2 = "''exist old CSR deleted for ['' @ ns @ ''/'' @ inst @ '']: '' @ csrName"
      obtain d wb where d: "CSRs_Delete (glog_Infof wa ?m1) csrName = (d, wb)"
        by (cases "CSRs_Delete (glog_Infof wa ?m1) csrName")
      from CSRs_Delete_stores [OF d] a
      have b: "secrets wb = secrets w" "rand wb = rand w"
        by (simp_all add: logs_only_Infof)
      show ?thesis
      proof (cases d)
        case None
        with g Inr Some d 1(2)
        have "sendCSR' lib (glog_Infof wb ?m2) ns inst rawCSR csrName = Some y"
          by simp
        from 1(1) [OF this] b show ?thesis
          by (simp add: logs_only_Infof)
      next
        case (Some e)
        with g Inr \<open>found = Some c\<close> d 1(2) b show ?thesis by auto
      qed
    qed
  qed
qed

lemma sendCSR_stores:
  "sendCSR lib w ns inst rawCSR name = Some (r, w1) \<Longrightarrow>
     secrets w1 = secrets w \<and> rand w1 = rand w"
  using sendCSR_stores_snd [of lib w ns inst rawCSR name "(r, w1)"] by simp

lemma CSRs_Delete_next_uid:
  "CSRs_Delete w name = (r, w1) \<Longrightarrow> next_uid w1 = next_uid w"
  by (auto simp: CSRs_Delete_def split: prod.splits option.splits dest!: api_call_stores)

lemma SaveToSecret_success:
  "SaveToSecret w ns inst component suffix cert key = (None, w1) \<Longrightarrow>
     secrets w (ns, secretName_of inst suffix) = None \<and>
     (\<exists>s. secrets w1 = (secrets w)((ns, secretName_of inst suffix) \<mapsto> s) \<and>
          secret_Data s = [''cert'' \<mapsto> cert, ''key'' \<mapsto> key]) \<and>
     csrs w1 = csrs w \<and> rand w1 = rand w"
  by (auto simp: SaveToSecret_def Secrets_Create_def Let_def logs_only_Infof
      split: prod.splits sum.splits option.splits dest!: api_call_stores)

lemma SaveToSecret_failure:
  "SaveToSecret w ns inst component suffix cert key = (Some err, w1) \<Longrightarrow>
     secrets w1 = secrets w \<and> csrs w1 = csrs w \<and> rand w1 = rand w"
  by (auto simp: SaveToSecret_def Secrets_Create_def Let_def logs_only_Infof
      split: prod.splits sum.splits option.splits dest!: api_call_stores)

section \<open>Facts about the steps of Create\<close>

lemma CheckSecret_usable:
  "fst (CheckSecret lib w ns name) \<longleftrightarrow>
     fst (api_call w) = None \<and>
     (\<exists>s. secrets w (ns, name) = Some s \<and>
          credential_usable lib (index_data (secret_Data s) ''cert'')
            (index_data (secret_Data s) ''key''))"
  by (auto simp: CheckSecret_def LoadFromSecret_def Secrets_Get_def credential_usable_def
      split: prod.splits sum.splits option.splits dest!: api_call_stores)

lemma CSRs_Create_resp:
  "CSRs_Create w c = (Inr resp, w1) \<Longrightarrow>
     csr_Name resp = csr_Name c \<and> csr_Conditions resp = [] \<and> csr_UID resp = next_uid w \<and>
     csrs w1 (csr_Name c) = Some resp"
  by (auto simp: CSRs_Create_def Let_def split: prod.splits option.splits dest!: api_call_stores)

lemma sendCSR_create_resp:
  "sendCSR_create lib w ns inst raw name = (Inr resp, w1) \<Longrightarrow>
     csr_Name resp = name \<and> csr_Conditions resp = [] \<and> csr_UID resp = next_uid w \<and>
     csrs w1 name = Some resp"
  by (auto simp: sendCSR_create_def csrs_glog_Infof csrResource_def
      split: prod.splits sum.splits dest!: CSRs_Create_resp)

lemma sendCSR_resp_snd:
  "sendCSR lib w ns inst raw name = Some y \<Longrightarrow>
     (\<forall>resp. fst y = Inr resp \<longrightarrow>
        csr_Name resp = name \<and> csr_Conditions resp = [] \<and> csr_UID resp = next_uid w \<and>
        csrs (snd y) name = Some resp)"
proof (induction rule: sendCSR.raw_induct [rotated 1, consumes 1])
  case (1 sendCSR' lib w ns inst rawCSR csrName y)
  obtain g w1 where g: "getCSR w ns inst csrName = (g, w1)"
    by (cases "getCSR w ns inst csrName")
  from getCSR_stores [OF g] have u1: "next_uid w1 = next_uid w" by simp
  show ?case
  proof (cases g)
    case (Inl e)
    with g 1(2) show ?thesis by auto
  next
    case (Inr found)
    show ?thesis
    proof (cases found)
      case None
      with g Inr 1(2)
      have "sendCSR_create lib w1 ns inst rawCSR csrName = y"
        by simp
      with sendCSR_create_resp [of lib w1 ns inst rawCSR csrName _ "snd y"] u1 show ?thesis
        by (cases y) auto
    next
      case (Some c)
      let ?m1 = "''found exist CSR '' @ ns @ ''/'' @ csrName
                     @ '' created by tidb-operator, overwriting''"
      let ?m2 = "''exist old CSR deleted for ['' @ ns @ ''/'' @ inst @ '']: '' @ csrName"
      obtain d w2 where d: "CSRs_Delete (glog_Infof w1 ?m1) csrName = (d, w2)"
        by (cases "CSRs_Delete (glog_Infof w1 ?m1) csrName")
      from CSRs_Delete_next_uid [OF d] u1 have u2: "next_uid w2 = next_uid w"
        by (simp add: logs_only_Infof)
      show ?thesis
      proof (cases d)
        case None
        with g Inr Some d 1(2)
        have r: "sendCSR' lib (glog_Infof w2 ?m2) ns inst rawCSR csrName = Some y"
          by simp
        from 1(1) [OF r] u2 show ?thesis by (simp add: logs_only_Infof)
      next
        case (Some e)
        with g Inr \<open>found = Some c\<close> d 1(2) show ?thesis by auto
      qed
    qed
  qed
qed

lemma sendCSR_resp:
  "sendCSR lib w ns inst raw name = Some (Inr resp, w') \<Longrightarrow>
     csr_Name resp = name \<and> csr_Conditions resp = [] \<and> csr_UID resp = next_uid w \<and>
     csrs w' name = Some resp"
  using sendCSR_resp_snd [of lib w ns inst raw name "(Inr resp, w')"] by simp

lemma approveCSR_csr:
  "approveCSR w c = (r, c', w1) \<Longrightarrow>
     csr_Name c' = csr_Name c \<and> csr_UID c' = csr_UID c \<and>
     length (csr_Conditions c') = Suc (length (csr_Conditions c))"
  by (auto simp: approveCSR_def Let_def split: prod.splits sum.splits)

lemma approveCSR_stored:
  "approveCSR w c = (None, c', w1) \<Longrightarrow> \<exists>stored. csrs w1 (csr_Name c) = Some stored"
  by (auto simp: approveCSR_def CSRs_UpdateApproval_def Let_def
      split: prod.splits sum.splits option.splits dest!: api_call_stores)

lemma Create_until_watch_cases:
  obtains
    (reuse) w1 where
      "CheckSecret lib w ns (csrName_of inst suffix) = (True, w1)"
      "Create_until_watch lib w ns inst commonName hostList IPList component suffix
         = (Inl (Returned None), glog_Infof w1 (reuse_message ns (csrName_of inst suffix)))"
  | (fail) err w' where
      "\<not> fst (CheckSecret lib w ns (csrName_of inst suffix))"
      "Create_until_watch lib w ns inst commonName hostList IPList component suffix
         = (Inl (Returned (Some err)), w')"
      "secrets w' = secrets w"
  | (diverge) w' where
      "\<not> fst (CheckSecret lib w ns (csrName_of inst suffix))"
      "Create_until_watch lib w ns inst commonName hostList IPList component suffix
         = (Inl Diverged, w')"
      "secrets w' = secrets w"
  | (wait) csr key w' where
      "\<not> fst (CheckSecret lib w ns (csrName_of inst suffix))"
      "Create_until_watch lib w ns inst commonName hostList IPList component suffix
         = (Inr (csr, key), w')"
      "secrets w' = secrets w"
      "csr_Name csr = csrName_of inst suffix"
      "length (csr_Conditions csr) = 1"
proof -
  let ?name = "csrName_of inst suffix"
  obtain b w1 where cs: "CheckSecret lib w ns ?name = (b, w1)"
    by (cases "CheckSecret lib w ns ?name")
  from CheckSecret_stores [OF cs] have s1: "secrets w1 = secrets w" by simp
  show thesis
  proof (cases b)
    case True
    with cs show thesis
      by (intro reuse [of w1]) (simp_all add: Create_until_watch_def Let_def reuse_message_def)
  next
    case False
    with cs have nb: "\<not> fst (CheckSecret lib w ns ?name)" by simp
    obtain res r where n: "NewCSR lib (rand w1) commonName hostList IPList = (res, r)"
      by (cases "NewCSR lib (rand w1) commonName hostList IPList")
    show thesis
    proof (cases res)
      case (Inl e)
      with cs False n s1 show thesis
        by (intro fail [OF nb, of _ "w1\<lparr>rand := r\<rparr>"])
          (simp_all add: Create_until_watch_def Let_def)
    next
      case (Inr p)
      obtain rawCSR key where p: "p = (rawCSR, key)" by (cases p)
      show thesis
      proof (cases "sendCSR lib (w1\<lparr>rand := r\<rparr>) ns inst rawCSR ?name")
        case None
        with cs False n Inr p s1 show thesis
          by (intro diverge [OF nb, of "w1\<lparr>rand := r\<rparr>"])
            (simp_all add: Create_until_watch_def Let_def)
      next
        case (Some sent)
        obtain sr w2 where sent: "sent = (sr, w2)" by (cases sent)
        with Some have sc: "sendCSR lib (w1\<lparr>rand := r\<rparr>) ns inst rawCSR ?name = Some (sr, w2)"
          by simp
        from sendCSR_stores [OF sc] s1 have s2: "secrets w2 = secrets w" by simp
        show thesis
        proof (cases sr)
          case (Inl e)
          with cs False n \<open>res = Inr p\<close> p sc s2 show thesis
            by (intro fail [OF nb, of _ w2]) (simp_all add: Create_until_watch_def Let_def)
        next
          case (Inr created)
          obtain ar csr w3 where ap: "approveCSR w2 created = (ar, csr, w3)"
            by (cases "approveCSR w2 created")
          from approveCSR_stores [OF ap] s2 have s3: "secrets w3 = secrets w" by simp
          from sendCSR_resp sc Inr
          have cr: "csr_Name created = ?name" "csr_Conditions created = []" by blast+
          with approveCSR_csr [OF ap]
          have c3: "csr_Name csr = ?name" "length (csr_Conditions csr) = 1" by simp_all
          show thesis
          proof (cases ar)
            case (Some e)
            with cs False n \<open>res = Inr p\<close> p sc Inr ap s3 show thesis
              by (intro fail [OF nb, of _ w3]) (simp_all add: Create_until_watch_def Let_def)
          next
            case None
            obtain wr w4 where wa: "CSRs_Watch w3 (''metadata.name='' @ ?name) = (wr, w4)"
              by (cases "CSRs_Watch w3 (''metadata.name='' @ ?name)")
            then have "secrets w4 = secrets w3"
              by (auto simp: CSRs_Watch_def dest!: api_call_stores)
            with s3 have s4: "secrets w4 = secrets w" by simp
            show thesis
            proof (cases wr)
              case (Some e)
              with cs False n \<open>res = Inr p\<close> p sc Inr ap None wa s4 show thesis
                by (intro fail [OF nb, of _ "glog_Errorf w4 (''error watch CSR for ['' @ ns
                      @ ''/'' @ inst @ '']: '' @ ?name)"])
                  (simp_all add: Create_until_watch_def Let_def logs_only_Errorf)
            next
              case None
              with cs False n \<open>res = Inr p\<close> p sc Inr ap \<open>ar = None\<close> wa s4 c3 show thesis
                by (intro wait [OF nb, of csr key w4])
                  (simp_all add: Create_until_watch_def Let_def)
            qed
          qed
        qed
      qed
    qed
  qed
qed

lemma Create_until_watch_wait:
  assumes "Create_until_watch lib w ns inst commonName hostList IPList component suffix
             = (Inr (csr, key), w1)"
  shows "\<not> fst (CheckSecret lib w ns (csrName_of inst suffix))"
    and "secrets w1 = secrets w"
    and "csr_Name csr = csrName_of inst suffix"
    and "length (csr_Conditions csr) = 1"
  using assms
  by (cases rule: Create_until_watch_cases
        [of lib w ns inst suffix commonName hostList IPList component]; simp)+

lemma Create_until_watch_stored:
  assumes "Create_until_watch lib w ns inst commonName hostList IPList component suffix
             = (Inr (csr, key), w1)"
  shows "\<exists>stored. csrs w1 (csrName_of inst suffix) = Some stored"
proof -
  let ?name = "csrName_of inst suffix"
  from assms obtain w0 r rawCSR created w2 w3 w4 where
    sc: "sendCSR lib (w0\<lparr>rand := r\<rparr>) ns inst rawCSR ?name = Some (Inr created, w2)"
    and ap: "approveCSR w2 created = (None, csr, w3)"
    and wa: "CSRs_Watch w3 (''metadata.name='' @ ?name) = (None, w4)"
    and w4: "w1 = w4"
    by (auto simp: Create_until_watch_def Let_def
        split: prod.splits bool.splits sum.splits option.splits)
  from sendCSR_resp [OF sc] have "csr_Name created = ?name" by simp
  with approveCSR_stored [OF ap] obtain stored where "csrs w3 ?name = Some stored" by auto
  moreover from wa have "csrs w4 = csrs w3"
    by (auto simp: CSRs_Watch_def dest!: api_call_stores)
  ultimately show ?thesis using w4 by simp
qed

lemma Create_reuse:
  assumes "fst (CheckSecret lib w ns (csrName_of inst suffix))"
  shows "Create lib w ns inst commonName hostList IPList component suffix sched
           = (Returned None,
              glog_Infof (snd (CheckSecret lib w ns (csrName_of inst suffix)))
                (reuse_message ns (csrName_of inst suffix)))"
  using assms
  by (cases "CheckSecret lib w ns (csrName_of inst suffix)")
     (simp add: Create_def Create_until_watch_def Let_def reuse_message_def)

section \<open>Facts about the wait loop\<close>

lemma Create_loop_continues:
  "\<forall>occ\<in>set pre. loop_continues csr occ \<Longrightarrow>
     Create_loop ns inst component suffix name csr key tick (pre @ sched) w =
     Create_loop ns inst component suffix name csr key (tick \<and> TenSecondsPass \<notin> set pre) sched
       (if tick \<and> TenSecondsPass \<in> set pre
        then glog_Infof w (still_pending ns inst name) else w)"
proof (induction pre arbitrary: tick w)
  case Nil
  then show ?case by simp
next
  case (Cons occ pre)
  then show ?case
    by (cases occ) (auto simp: loop_continues_def still_pending_def)
qed

lemma event_without_signature_ignored:
  assumes "event_Object event = CSRObject updatedCSR"
    and "csr_Conditions updatedCSR = [] \<or>
         length (csr_Conditions updatedCSR) = length (csr_Conditions csr)"
    and "\<not> accepted_signature csr updatedCSR"
  shows "event_action csr event = Ignore"
proof (cases "csr_Conditions updatedCSR = []")
  case True
  with assms(1) show ?thesis
    by (simp add: event_action_def)
next
  case False
  with assms(2) have l: "length (csr_Conditions updatedCSR) = length (csr_Conditions csr)"
    by simp
  from False have "0 < length (csr_Conditions updatedCSR)" by simp
  moreover from False
  have "csr_Conditions updatedCSR ! (length (csr_Conditions updatedCSR) - 1)
          = last (csr_Conditions updatedCSR)"
    by (simp add: last_conv_nth)
  moreover have "nat (int (length (csr_Conditions csr)) - 1)
          = length (csr_Conditions updatedCSR) - 1"
    using l by arith
  ultimately show ?thesis
    using assms(1,3) False l
    by (auto simp: event_action_def accepted_signature_def Let_def CertificateApproved_def
        split: option.splits)
qed

lemma brings_no_signature_continues:
  "brings_no_signature csr occ \<Longrightarrow> loop_continues csr occ"
  by (cases occ)
     (auto simp: brings_no_signature_def loop_continues_def split: runtime_Object.splits
      intro: event_without_signature_ignored)

lemma Create_loop_success_secret:
  "Create_loop ns inst component suffix name csr key tick sched w = (Returned None, w') \<Longrightarrow>
     \<exists>s. secrets w' (ns, secretName_of inst suffix) = Some s"
proof (induction ns inst component suffix name csr key tick sched w
    rule: Create_loop.induct)
  case (1 ns inst component suffix csrName csr key tick w)
  then show ?case by simp
next
  case (2 ns inst component suffix csrName csr key tick sched w)
  then show ?case by (simp split: if_splits)
next
  case (3 ns inst component suffix csrName csr key tick sched w)
  then show ?case by simp
next
  case (4 ns inst component suffix csrName csr key tick event sched w)
  show ?case
  proof (cases "event_action csr event")
    case Ignore
    with 4 show ?thesis by simp
  next
    case (Persist cert)
    with "4.prems" show ?thesis
      by (auto split: prod.splits option.splits
          dest!: SaveToSecret_success CSRs_Delete_stores)
  next
    case Panic
    with "4.prems" show ?thesis by simp
  qed
qed

lemma Create_success_secret:
  assumes "Create lib w ns inst commonName hostList IPList component suffix sched
             = (Returned None, w')"
    and "suffix \<noteq> []"
  shows "\<exists>s. secrets w' (ns, csrName_of inst suffix) = Some s"
proof (cases rule: Create_until_watch_cases
    [of lib w ns inst suffix commonName hostList IPList component])
  case (reuse w1)
  from reuse(1) have "fst (CheckSecret lib w ns (csrName_of inst suffix))" by simp
  then obtain s where "secrets w (ns, csrName_of inst suffix) = Some s"
    by (auto simp: CheckSecret_usable)
  moreover from CheckSecret_stores [OF reuse(1)] have "secrets w1 = secrets w" by simp
  moreover from assms(1) reuse(2)
  have "w' = glog_Infof w1 (reuse_message ns (csrName_of inst suffix))"
    by (simp add: Create_def)
  ultimately show ?thesis by (simp add: logs_only_Infof)
next
  case (fail err w1)
  with assms(1) show ?thesis by (simp add: Create_def)
next
  case (diverge w1)
  with assms(1) show ?thesis by (simp add: Create_def)
next
  case (wait csr key w1)
  with assms(1)
  have "Create_loop ns inst component suffix (csrName_of inst suffix) csr key True sched w1
          = (Returned None, w')"
    by (simp add: Create_def)
  from Create_loop_success_secret [OF this] assms(2) show ?thesis
    by (simp add: csrName_of_def secretName_of_def)
qed

section \<open>Facts about a resource of another owner\<close>

lemma getCSR_foreign:
  assumes "csrs w name = Some c" "\<not> ownership_labels_match ns inst c"
  shows "\<exists>w1. csrs w1 = csrs w \<and>
           ((\<exists>e. getCSR w ns inst name = (Inl e, w1)) \<or> getCSR w ns inst name = (Inr None, w1))"
  using assms
  by (auto simp: getCSR_def CSRs_Get_def ownership_labels_match_def
      split: prod.splits option.splits dest!: api_call_stores)

lemma sendCSR_create_exists:
  assumes "csrs w name = Some c"
  shows "\<exists>e w1. sendCSR_create lib w ns inst raw name = (Inl e, w1) \<and> csrs w1 = csrs w"
  using assms
  by (auto simp: sendCSR_create_def CSRs_Create_def csrResource_def
      split: prod.splits option.splits dest!: api_call_stores)

lemma sendCSR_foreign:
  assumes "csrs w name = Some c" "\<not> ownership_labels_match ns inst c"
  shows "\<exists>e w1. sendCSR lib w ns inst raw name = Some (Inl e, w1) \<and> csrs w1 = csrs w"
proof -
  from getCSR_foreign [OF assms] obtain w1 where w1: "csrs w1 = csrs w"
    and g: "(\<exists>e. getCSR w ns inst name = (Inl e, w1)) \<or> getCSR w ns inst name = (Inr None, w1)"
    by blast
  from g show ?thesis
  proof
    assume "\<exists>e. getCSR w ns inst name = (Inl e, w1)"
    then show ?thesis
      using w1 by (subst sendCSR.simps) auto
  next
    assume n: "getCSR w ns inst name = (Inr None, w1)"
    from assms(1) w1 have "csrs w1 name = Some c" by simp
    from sendCSR_create_exists [OF this, of lib ns inst raw] obtain e w2
      where "sendCSR_create lib w1 ns inst raw name = (Inl e, w2)" "csrs w2 = csrs w1"
      by blast
    with n w1 show ?thesis
      by (subst sendCSR.simps) auto
  qed
qed

section \<open>The request generator\<close>

lemma ipAddrList_loop_map:
  "ipAddrList_loop lib IPList acc = acc @ map (net_ParseIP lib) IPList"
  by (induction IPList arbitrary: acc) simp_all

text \<open>
  Claim C8. For every list of IP-address strings, \<^verbatim>\<open>NewCSR\<close> parses each entry and puts
  the result, in order, into the IP list of the certificate request; an entry that does
  not parse is not rejected: it stands in that list as the nil address. \<^verbatim>\<open>NewCSR\<close> has
  no error of its own for it: it fails only where generating the key or building the
  request from that template fails.
\<close>

theorem NewCSR_carries_unparsed_ip:
  "IPAddresses (csrTemplate lib commonName hostList IPList) = map (net_ParseIP lib) IPList \<and>
   (i < length IPList \<and> net_ParseIP lib (IPList ! i) = None \<longrightarrow>
      IPAddresses (csrTemplate lib commonName hostList IPList) ! i = None) \<and>
   NewCSR lib r commonName hostList IPList =
     (case rsa_GenerateKey lib r 2048 of
        (Inl err, r1) \<Rightarrow> (Inl err, r1)
      | (Inr privKey, r1) \<Rightarrow>
          (case x509_CreateCertificateRequest lib r1
                  \<lparr>Subject = \<lparr>Organization = [''PingCAP''],
                              OrganizationalUnit = [''TiDB Operator''],
                              CommonName = commonName\<rparr>,
                   DNSNames = hostList,
                   IPAddresses = map (net_ParseIP lib) IPList\<rparr> privKey of
             (Inl err, r2) \<Rightarrow> (Inl err, r2)
           | (Inr csr, r2) \<Rightarrow>
               (Inr (csr, pem_EncodeToMemory lib ''RSA PRIVATE KEY''
                            (x509_MarshalPKCS1PrivateKey lib privKey)), r2)))"
  by (auto simp: csrTemplate_def ipAddrList_loop_map NewCSR_def newPrivateKey_def rsaKeySize_def
      convertKeyToPEM_def split: prod.splits sum.splits)

theorem NewCSR_carries_unparsed_ip_witness:
  "(1::nat) < length [''10.0.0.5'', ''10.0.0.256''] \<and>
   net_ParseIP stub_lib ([''10.0.0.5'', ''10.0.0.256''] ! 1) = None \<and>
   IPAddresses (csrTemplate stub_lib ''pd-0.db.svc'' [''pd-0.db.svc'']
                  [''10.0.0.5'', ''10.0.0.256'']) = [Some [10, 0, 0, 5], None] \<and>
   IPAddresses (csrTemplate stub_lib ''pd-0.db.svc'' [''pd-0.db.svc'']
                  [''10.0.0.5'', ''10.0.0.256'']) ! 1 = None \<and>
   NewCSR stub_lib 7 ''pd-0.db.svc'' [''pd-0.db.svc''] [''10.0.0.5'', ''10.0.0.256'']
     = (Inr ([7], [45, 7]), 9)"
  using NewCSR_carries_unparsed_ip [where lib = stub_lib and i = 1
      and IPList = "[''10.0.0.5'', ''10.0.0.256'']" and commonName = "''pd-0.db.svc''"
      and hostList = "[''pd-0.db.svc'']" and r = 7]
  by (simp add: stub_lib_def)

section \<open>The usability check\<close>

text \<open>
  Claim C9. \<^verbatim>\<open>CheckSecret\<close> gives its caller a bool and nothing else. It is true exactly
  when every step passes: the secret is read, its \<^verbatim>\<open>cert\<close> field decodes as PEM, the
  block parses as a certificate, the trusted roots are read, the certificate verifies
  against them for the usages client-auth and server-auth, and certificate and key form
  a pair; it is false on every other path.
\<close>

theorem CheckSecret_true_iff:
  "fst (CheckSecret lib w ns secretName) \<longleftrightarrow>
     (\<exists>secret w1 block cert rootCAs.
        Secrets_Get w ns secretName = (Inr secret, w1) \<and>
        pem_Decode lib (index_data (secret_Data secret) ''cert'') = Some block \<and>
        x509_ParseCertificate lib block = Inr cert \<and>
        ReadCACerts lib = Inr rootCAs \<and>
        x509_Verify lib cert rootCAs [ExtKeyUsageClientAuth, ExtKeyUsageServerAuth] = None \<and>
        tls_X509KeyPair lib (index_data (secret_Data secret) ''cert'')
          (index_data (secret_Data secret) ''key'') = None)"
  by (auto simp: CheckSecret_def LoadFromSecret_def split: prod.splits sum.splits option.splits)

section \<open>The submission step\<close>

lemma getCSR_deletes:
  "getCSR w ns inst name = (r, w1) \<Longrightarrow> removes w1 = removes w \<and> deletes w1 = deletes w"
  by (auto simp: getCSR_def CSRs_Get_def split: prod.splits sum.splits option.splits if_splits
      dest!: api_call_deletes)

lemma CSRs_Delete_accepted:
  "CSRs_Delete w name = (None, w1) \<Longrightarrow>
     deletes w1 = Suc (deletes w) \<and> removes w1 = removes w \<and>
     (removes w (deletes w) \<longrightarrow> csrs w1 name = None) \<and>
     (\<not> removes w (deletes w) \<longrightarrow> csrs w1 = csrs w)"
  by (auto simp: CSRs_Delete_def api_call_def
      split: prod.splits option.splits if_splits list.splits)

text \<open>
  When no accepted delete ever removes the resource and no call fails, \<^verbatim>\<open>sendCSR\<close> on a
  resource of its own does not return.
\<close>

lemma sendCSR_returned_removes:
  "sendCSR lib w ns inst raw name = Some y \<Longrightarrow>
     faults w = [] \<Longrightarrow>
     (\<exists>c. csrs w name = Some c \<and> ownership_labels_match ns inst c) \<Longrightarrow>
     \<exists>k. removes w k"
proof (induction rule: sendCSR.raw_induct [rotated 1, consumes 1])
  case (1 sendCSR' lib w ns inst raw name y)
  from 1(4) obtain c where c: "csrs w name = Some c" "ownership_labels_match ns inst c"
    by blast
  let ?m1 = "''found exist CSR '' @ ns @ ''/'' @ name
               @ '' created by tidb-operator, overwriting''"
  let ?m2 = "''exist old CSR deleted for ['' @ ns @ ''/'' @ inst @ '']: '' @ name"
  let ?w2 = "(glog_Infof w ?m1)\<lparr>deletes := Suc (deletes w)\<rparr>"
  show ?case
  proof (cases "removes w (deletes w)")
    case True
    then show ?thesis by blast
  next
    case False
    from c 1(3) have g: "getCSR w ns inst name = (Inr (Some c), w)"
      by (simp add: getCSR_def CSRs_Get_def api_call_def ownership_labels_match_def)
    from c 1(3) False have d: "CSRs_Delete (glog_Infof w ?m1) name = (None, ?w2)"
      by (simp add: CSRs_Delete_def api_call_def glog_Infof_def)
    from g d 1(2) have r: "sendCSR' lib (glog_Infof ?w2 ?m2) ns inst raw name = Some y"
      by simp
    from 1(3) c have
      "faults (glog_Infof ?w2 ?m2) = []"
      "\<exists>c. csrs (glog_Infof ?w2 ?m2) name = Some c \<and> ownership_labels_match ns inst c"
      by (simp_all add: glog_Infof_def)
    from 1(1) [OF r this] show ?thesis
      by (simp add: glog_Infof_def)
  qed
qed

lemma sendCSR_never_returns:
  assumes "\<forall>k. \<not> removes w k" and "faults w = []"
    and "csrs w name = Some c" and "ownership_labels_match ns inst c"
  shows "sendCSR lib w ns inst raw name = None"
proof (cases "sendCSR lib w ns inst raw name")
  case None
  then show ?thesis .
next
  case (Some y)
  from sendCSR_returned_removes [OF Some assms(2)] assms(1,3,4) show ?thesis
    by blast
qed

text \<open>
  One resource of the controller's own, and a server that accepts deletes but removes the
  resource only with the fourth: \<^verbatim>\<open>sendCSR\<close> deletes four times before it creates the
  new resource. With a server that accepts deletes and never removes it, \<^verbatim>\<open>sendCSR\<close>
  does not return, and neither does \<^verbatim>\<open>Create\<close>.
\<close>

theorem sendCSR_deletes_again:
  "csrs (empty_world\<lparr>csrs := [''pd-0-peer'' \<mapsto> own_csr], removes := (\<lambda>k. 3 \<le> k)\<rparr>)
     ''pd-0-peer'' = Some own_csr \<and>
   ownership_labels_match ''db'' ''pd-0'' own_csr \<and>
   (\<exists>resp w'.
      sendCSR stub_lib
        (empty_world\<lparr>csrs := [''pd-0-peer'' \<mapsto> own_csr], removes := (\<lambda>k. 3 \<le> k)\<rparr>)
        ''db'' ''pd-0'' [7] ''pd-0-peer'' = Some (Inr resp, w') \<and>
      deletes w' = 4 \<and>
      length (filter (\<lambda>l. l = (INFO, ''exist old CSR deleted for [db/pd-0]: pd-0-peer''))
                (logs w')) = 4) \<and>
   sendCSR stub_lib
     (empty_world\<lparr>csrs := [''pd-0-peer'' \<mapsto> own_csr], removes := (\<lambda>k. False)\<rparr>)
     ''db'' ''pd-0'' [7] ''pd-0-peer'' = None \<and>
   fst (Create stub_lib
          (empty_world\<lparr>csrs := [''pd-0-peer'' \<mapsto> own_csr], removes := (\<lambda>k. False)\<rparr>)
          ''db'' ''pd-0'' ''pd-0.db.svc'' [''pd-0.db.svc''] [''10.0.0.5''] ''pd'' ''peer''
          [Closed]) = Diverged"
proof -
  let ?never = "empty_world\<lparr>csrs := [''pd-0-peer'' \<mapsto> own_csr], removes := (\<lambda>k. False)\<rparr>"
  have own: "ownership_labels_match ''db'' ''pd-0'' own_csr"
    by (simp add: ownership_labels_match_def own_csr_def index_map_def label_New_def
        NamespaceLabelKey_def ManagedByLabelKey_def InstanceLabelKey_def)
  have four: "\<exists>resp w'.
      sendCSR stub_lib
        (empty_world\<lparr>csrs := [''pd-0-peer'' \<mapsto> own_csr], removes := (\<lambda>k. 3 \<le> k)\<rparr>)
        ''db'' ''pd-0'' [7] ''pd-0-peer'' = Some (Inr resp, w') \<and>
      deletes w' = 4 \<and>
      length (filter (\<lambda>l. l = (INFO, ''exist old CSR deleted for [db/pd-0]: pd-0-peer''))
                (logs w')) = 4"
    by (simp add: sendCSR.simps model_defs stub_lib_def empty_world_def own_csr_def Let_def)
  have never: "sendCSR stub_lib (?never\<lparr>rand := r\<rparr>) ''db'' ''pd-0'' raw ''pd-0-peer'' = None"
    for r raw
    by (rule sendCSR_never_returns [OF _ _ _ own]) (simp_all add: empty_world_def)
  have "?never\<lparr>rand := 7\<rparr> = ?never"
    by (simp add: empty_world_def)
  with never [of 7 "[7]"]
  have n1: "sendCSR stub_lib ?never ''db'' ''pd-0'' [7] ''pd-0-peer'' = None"
    by simp
  have n2: "fst (Create stub_lib ?never ''db'' ''pd-0'' ''pd-0.db.svc'' [''pd-0.db.svc'']
                   [''10.0.0.5''] ''pd'' ''peer'' [Closed]) = Diverged"
    using never [of 9 "[7]"]
    by (simp add: Create_def Create_until_watch_def csrName_of_def CheckSecret_def
        LoadFromSecret_def Secrets_Get_def api_call_def NewCSR_def newPrivateKey_def
        rsaKeySize_def csrTemplate_def convertKeyToPEM_def stub_lib_def empty_world_def Let_def)
  from own four n1 n2 show ?thesis
    by simp
qed

text \<open>
  Claim C3, amended. When \<^verbatim>\<open>sendCSR\<close> finds a resource of its own under the name and
  the server accepts the delete, it calls itself again, and it keeps no count of these
  calls. When the delete it is about to make is one that removes the resource, there is
  one re-attempt and \<^verbatim>\<open>sendCSR\<close> returns: the second look-up fails or finds nothing,
  and the resource is created (or the create fails) without another delete.
\<close>

theorem sendCSR_retries_once:
  "(getCSR w ns inst csrName = (Inr (Some found), w1) \<and>
    CSRs_Delete
      (glog_Infof w1 (''found exist CSR '' @ ns @ ''/'' @ csrName
         @ '' created by tidb-operator, overwriting'')) csrName = (None, w2) \<longrightarrow>
    sendCSR lib w ns inst rawCSR csrName =
      sendCSR lib
        (glog_Infof w2 (''exist old CSR deleted for ['' @ ns @ ''/'' @ inst @ '']: ''
           @ csrName))
        ns inst rawCSR csrName) \<and>
   (removes w (deletes w) \<longrightarrow>
    sendCSR lib w ns inst rawCSR csrName =
      Some
        (case getCSR w ns inst csrName of
           (Inl err, w1) \<Rightarrow>
             (Inl (ErrorString (''failed to create CSR for ['' @ ns @ ''/'' @ inst @ '']: ''
                     @ csrName @ '', error: '' @ Error err)), w1)
         | (Inr None, w1) \<Rightarrow> sendCSR_create lib w1 ns inst rawCSR csrName
         | (Inr (Some found), w1) \<Rightarrow>
             (case CSRs_Delete
                     (glog_Infof w1 (''found exist CSR '' @ ns @ ''/'' @ csrName
                        @ '' created by tidb-operator, overwriting'')) csrName of
                (Some err, w2) \<Rightarrow>
                  (Inl (ErrorString (''failed to delete exist old CSR for ['' @ ns @ ''/''
                          @ inst @ '']: '' @ csrName @ '', error: '' @ Error err)), w2)
              | (None, w2) \<Rightarrow>
                  (case getCSR
                          (glog_Infof w2 (''exist old CSR deleted for ['' @ ns @ ''/'' @ inst
                             @ '']: '' @ csrName)) ns inst csrName of
                     (Inl err, w3) \<Rightarrow>
                       (Inl (ErrorString (''failed to create CSR for ['' @ ns @ ''/'' @ inst
                               @ '']: '' @ csrName @ '', error: '' @ Error err)), w3)
                   | (Inr again, w3) \<Rightarrow> sendCSR_create lib w3 ns inst rawCSR csrName))))"
proof -
  have again: "getCSR w ns inst csrName = (Inr (Some found), w1) \<and>
      CSRs_Delete
        (glog_Infof w1 (''found exist CSR '' @ ns @ ''/'' @ csrName
           @ '' created by tidb-operator, overwriting'')) csrName = (None, w2) \<longrightarrow>
      sendCSR lib w ns inst rawCSR csrName =
        sendCSR lib
          (glog_Infof w2 (''exist old CSR deleted for ['' @ ns @ ''/'' @ inst @ '']: ''
             @ csrName))
          ns inst rawCSR csrName"
    by (subst sendCSR.simps) simp
  have gone: "again = None"
    if "removes w (deletes w)"
      and "getCSR w ns inst csrName = (g, wa)"
      and "CSRs_Delete (glog_Infof wa m1) csrName = (None, wb)"
      and "getCSR (glog_Infof wb m2) ns inst csrName = (Inr again, wc)"
    for g wa m1 wb m2 again wc
  proof (cases again)
    case None
    then show ?thesis .
  next
    case (Some c)
    with that(4) have "csrs (glog_Infof wb m2) csrName = Some c"
      using getCSR_found by blast
    moreover from getCSR_deletes [OF that(2)] that(1)
    have "removes (glog_Infof wa m1) (deletes (glog_Infof wa m1))"
      by (simp add: logs_only_Infof)
    with CSRs_Delete_accepted [OF that(3)] have "csrs wb csrName = None"
      by simp
    ultimately show ?thesis
      by (simp add: csrs_glog_Infof)
  qed
  have once: "removes w (deletes w) \<longrightarrow>
    sendCSR lib w ns inst rawCSR csrName =
      Some
        (case getCSR w ns inst csrName of
           (Inl err, w1) \<Rightarrow>
             (Inl (ErrorString (''failed to create CSR for ['' @ ns @ ''/'' @ inst @ '']: ''
                     @ csrName @ '', error: '' @ Error err)), w1)
         | (Inr None, w1) \<Rightarrow> sendCSR_create lib w1 ns inst rawCSR csrName
         | (Inr (Some found), w1) \<Rightarrow>
             (case CSRs_Delete
                     (glog_Infof w1 (''found exist CSR '' @ ns @ ''/'' @ csrName
                        @ '' created by tidb-operator, overwriting'')) csrName of
                (Some err, w2) \<Rightarrow>
                  (Inl (ErrorString (''failed to delete exist old CSR for ['' @ ns @ ''/''
                          @ inst @ '']: '' @ csrName @ '', error: '' @ Error err)), w2)
              | (None, w2) \<Rightarrow>
                  (case getCSR
                          (glog_Infof w2 (''exist old CSR deleted for ['' @ ns @ ''/'' @ inst
                             @ '']: '' @ csrName)) ns inst csrName of
                     (Inl err, w3) \<Rightarrow>
                       (Inl (ErrorString (''failed to create CSR for ['' @ ns @ ''/'' @ inst
                               @ '']: '' @ csrName @ '', error: '' @ Error err)), w3)
                   | (Inr again, w3) \<Rightarrow> sendCSR_create lib w3 ns inst rawCSR csrName)))"
    apply (subst sendCSR.simps)
    apply (subst sendCSR.simps)
    apply (auto split: prod.splits sum.splits option.splits dest: gone)
    done
  from again once show ?thesis by blast
qed

theorem sendCSR_retries_once_witness:
  "removes (empty_world\<lparr>csrs := [''pd-0-peer'' \<mapsto> own_csr]\<rparr>)
     (deletes (empty_world\<lparr>csrs := [''pd-0-peer'' \<mapsto> own_csr]\<rparr>)) \<and>
   getCSR (empty_world\<lparr>csrs := [''pd-0-peer'' \<mapsto> own_csr]\<rparr>) ''db'' ''pd-0'' ''pd-0-peer''
     = (Inr (Some own_csr), empty_world\<lparr>csrs := [''pd-0-peer'' \<mapsto> own_csr]\<rparr>) \<and>
   (\<exists>w2.
      CSRs_Delete
        (glog_Infof (empty_world\<lparr>csrs := [''pd-0-peer'' \<mapsto> own_csr]\<rparr>)
           (''found exist CSR '' @ ''db'' @ ''/'' @ ''pd-0-peer''
              @ '' created by tidb-operator, overwriting'')) ''pd-0-peer'' = (None, w2) \<and>
      csrs w2 ''pd-0-peer'' = None \<and>
      sendCSR stub_lib (empty_world\<lparr>csrs := [''pd-0-peer'' \<mapsto> own_csr]\<rparr>)
        ''db'' ''pd-0'' [7] ''pd-0-peer''
      = sendCSR stub_lib
          (glog_Infof w2 (''exist old CSR deleted for ['' @ ''db'' @ ''/'' @ ''pd-0'' @ '']: ''
             @ ''pd-0-peer''))
          ''db'' ''pd-0'' [7] ''pd-0-peer'') \<and>
   (\<exists>w'.
      sendCSR stub_lib (empty_world\<lparr>csrs := [''pd-0-peer'' \<mapsto> own_csr]\<rparr>)
        ''db'' ''pd-0'' [7] ''pd-0-peer''
      = Some (Inr ((csrResource stub_lib ''db'' ''pd-0'' [7] ''pd-0-peer'')\<lparr>csr_UID := 1\<rparr>), w')
      \<and> csrs w' ''pd-0-peer''
          = Some ((csrResource stub_lib ''db'' ''pd-0'' [7] ''pd-0-peer'')\<lparr>csr_UID := 1\<rparr>)
      \<and> csr_Request ((csrResource stub_lib ''db'' ''pd-0'' [7] ''pd-0-peer'')\<lparr>csr_UID := 1\<rparr>)
          = [45, 7]
      \<and> deletes w' = 1
      \<and> logs w' = [(INFO, ''found exist CSR db/pd-0-peer created by tidb-operator, overwriting''),
                   (INFO, ''exist old CSR deleted for [db/pd-0]: pd-0-peer''),
                   (INFO, ''CSR created for [db/pd-0]: pd-0-peer'')])"
proof -
  let ?w = "empty_world\<lparr>csrs := [''pd-0-peer'' \<mapsto> own_csr]\<rparr>"
  let ?m1 = "''found exist CSR '' @ ''db'' @ ''/'' @ ''pd-0-peer''
               @ '' created by tidb-operator, overwriting''"
  have a: "removes ?w (deletes ?w)"
    by (simp add: empty_world_def)
  have g: "getCSR ?w ''db'' ''pd-0'' ''pd-0-peer'' = (Inr (Some own_csr), ?w)"
    by (simp add: model_defs empty_world_def own_csr_def)
  obtain w2 where d: "CSRs_Delete (glog_Infof ?w ?m1) ''pd-0-peer'' = (None, w2)"
    and d': "csrs w2 ''pd-0-peer'' = None"
    by (simp add: model_defs empty_world_def)
  note th = sendCSR_retries_once [where w = ?w and ns = "''db''" and inst = "''pd-0''"
      and csrName = "''pd-0-peer''" and found = own_csr and ?w1.0 = ?w and ?w2.0 = w2
      and lib = stub_lib and rawCSR = "[7]"]
  from th g d
  have e1: "sendCSR stub_lib ?w ''db'' ''pd-0'' [7] ''pd-0-peer''
      = sendCSR stub_lib
          (glog_Infof w2 (''exist old CSR deleted for ['' @ ''db'' @ ''/'' @ ''pd-0'' @ '']: ''
             @ ''pd-0-peer''))
          ''db'' ''pd-0'' [7] ''pd-0-peer''"
    by blast
  from th a
  have "\<exists>w'.
      sendCSR stub_lib ?w ''db'' ''pd-0'' [7] ''pd-0-peer''
      = Some (Inr ((csrResource stub_lib ''db'' ''pd-0'' [7] ''pd-0-peer'')\<lparr>csr_UID := 1\<rparr>), w')
      \<and> csrs w' ''pd-0-peer''
          = Some ((csrResource stub_lib ''db'' ''pd-0'' [7] ''pd-0-peer'')\<lparr>csr_UID := 1\<rparr>)
      \<and> csr_Request ((csrResource stub_lib ''db'' ''pd-0'' [7] ''pd-0-peer'')\<lparr>csr_UID := 1\<rparr>)
          = [45, 7]
      \<and> deletes w' = 1
      \<and> logs w' = [(INFO, ''found exist CSR db/pd-0-peer created by tidb-operator, overwriting''),
                   (INFO, ''exist old CSR deleted for [db/pd-0]: pd-0-peer''),
                   (INFO, ''CSR created for [db/pd-0]: pd-0-peer'')]"
    by (simp add: model_defs stub_lib_def empty_world_def own_csr_def Let_def)
  with a g d d' e1 show ?thesis
    by blast
qed

section \<open>A resource of another owner\<close>

text \<open>
  A run in which the name is taken by a resource of another manager and \<^verbatim>\<open>Create\<close>
  returns nil all the same: a usable secret is there, so \<^verbatim>\<open>Create\<close> returns at its
  first check and never looks at the CSR resources.
\<close>

theorem foreign_CSR_with_usable_secret:
  "csrs (empty_world\<lparr>csrs := [''pd-0-peer'' \<mapsto> foreign_csr],
                      secrets := [(''db'', ''pd-0-peer'') \<mapsto> usable_secret]\<rparr>)
     (csrName_of ''pd-0'' ''peer'') = Some foreign_csr \<and>
   \<not> ownership_labels_match ''db'' ''pd-0'' foreign_csr \<and>
   fst (Create stub_lib
          (empty_world\<lparr>csrs := [''pd-0-peer'' \<mapsto> foreign_csr],
                       secrets := [(''db'', ''pd-0-peer'') \<mapsto> usable_secret]\<rparr>)
          ''db'' ''pd-0'' ''pd-0.db.svc'' [''pd-0.db.svc''] [''10.0.0.5''] ''pd'' ''peer''
          [Closed])
     = Returned None"
  by (simp add: model_defs stub_lib_def empty_world_def foreign_csr_def usable_secret_def
      ownership_labels_match_def Let_def)

text \<open>
  Claim C2, amended. When the name \<^verbatim>\<open>Create\<close> derives is that of an existing CSR
  resource whose labels (namespace, managed-by, instance) do not all match, \<^verbatim>\<open>Create\<close>
  leaves every CSR resource as it was, for every schedule and every injected failure. It
  returns nil, at its first step and without a look at the CSR resource, exactly when
  the secret check passes, that is when the read of the secret under the derived name
  does not fail and the certificate and key read pass the checks of \<^verbatim>\<open>CheckSecret\<close>;
  in every other case it returns an error.
\<close>

theorem foreign_CSR_untouched:
  assumes "csrs w (csrName_of inst suffix) = Some c"
    and "\<not> ownership_labels_match ns inst c"
  shows "csrs (snd (Create lib w ns inst commonName hostList IPList component suffix sched))
           = csrs w \<and>
         (fst (CheckSecret lib w ns (csrName_of inst suffix)) \<longrightarrow>
            fst (Create lib w ns inst commonName hostList IPList component suffix sched)
              = Returned None) \<and>
         (\<not> fst (CheckSecret lib w ns (csrName_of inst suffix)) \<longrightarrow>
            (\<exists>err. fst (Create lib w ns inst commonName hostList IPList component suffix sched)
                     = Returned (Some err))) \<and>
         (fst (CheckSecret lib w ns (csrName_of inst suffix)) \<longleftrightarrow>
            fst (api_call w) = None \<and>
            (\<exists>s. secrets w (ns, csrName_of inst suffix) = Some s \<and>
                 credential_usable lib (index_data (secret_Data s) ''cert'')
                   (index_data (secret_Data s) ''key'')))"
proof -
  let ?run = "Create lib w ns inst commonName hostList IPList component suffix sched"
  obtain b w1 where cs: "CheckSecret lib w ns (csrName_of inst suffix) = (b, w1)"
    by (cases "CheckSecret lib w ns (csrName_of inst suffix)")
  from CheckSecret_stores [OF cs] have c1: "csrs w1 = csrs w" by simp
  have run: "csrs (snd ?run) = csrs w \<and>
      (b \<longrightarrow> fst ?run = Returned None) \<and>
      (\<not> b \<longrightarrow> (\<exists>err. fst ?run = Returned (Some err)))"
  proof (cases b)
    case True
    with cs c1 show ?thesis
      by (simp add: Create_def Create_until_watch_def csrs_glog_Infof Let_def)
  next
    case False
    obtain res r where n: "NewCSR lib (rand w1) commonName hostList IPList = (res, r)"
      by (cases "NewCSR lib (rand w1) commonName hostList IPList")
    show ?thesis
    proof (cases res)
      case (Inl e)
      with cs False n c1 show ?thesis
        by (simp add: Create_def Create_until_watch_def Let_def)
    next
      case (Inr p)
      obtain rawCSR key where p: "p = (rawCSR, key)" by (cases p)
      have "csrs (w1\<lparr>rand := r\<rparr>) (csrName_of inst suffix) = Some c"
        using assms(1) c1 by simp
      from sendCSR_foreign [OF this assms(2), of lib rawCSR] obtain e w2
        where "sendCSR lib (w1\<lparr>rand := r\<rparr>) ns inst rawCSR (csrName_of inst suffix)
                 = Some (Inl e, w2)"
          "csrs w2 = csrs (w1\<lparr>rand := r\<rparr>)"
        by blast
      with cs False n Inr p c1 show ?thesis
        by (simp add: Create_def Create_until_watch_def Let_def)
    qed
  qed
  with cs CheckSecret_usable [of lib w ns "csrName_of inst suffix"] show ?thesis
    by simp
qed

theorem foreign_CSR_untouched_witness:
  "csrs (empty_world\<lparr>csrs := [''pd-0-peer'' \<mapsto> foreign_csr]\<rparr>)
     (csrName_of ''pd-0'' ''peer'') = Some foreign_csr \<and>
   \<not> ownership_labels_match ''db'' ''pd-0'' foreign_csr \<and>
   \<not> fst (CheckSecret stub_lib (empty_world\<lparr>csrs := [''pd-0-peer'' \<mapsto> foreign_csr]\<rparr>)
           ''db'' (csrName_of ''pd-0'' ''peer'')) \<and>
   fst (Create stub_lib (empty_world\<lparr>csrs := [''pd-0-peer'' \<mapsto> foreign_csr]\<rparr>)
          ''db'' ''pd-0'' ''pd-0.db.svc'' [''pd-0.db.svc''] [''10.0.0.5''] ''pd'' ''peer''
          [Closed])
     = Returned (Some (ErrorString
         (''failed to create CSR for [db/pd-0]: pd-0-peer, error: ''
          @ ''CSR db/pd-0-peer already exist, but not created by tidb-operator, skip it''))) \<and>
   csrs (snd (Create stub_lib (empty_world\<lparr>csrs := [''pd-0-peer'' \<mapsto> foreign_csr]\<rparr>)
          ''db'' ''pd-0'' ''pd-0.db.svc'' [''pd-0.db.svc''] [''10.0.0.5''] ''pd'' ''peer''
          [Closed]))
     = [''pd-0-peer'' \<mapsto> foreign_csr] \<and>
   fst (CheckSecret stub_lib
          (empty_world\<lparr>csrs := [''pd-0-peer'' \<mapsto> foreign_csr],
                       secrets := [(''db'', ''pd-0-peer'') \<mapsto> usable_secret]\<rparr>)
          ''db'' (csrName_of ''pd-0'' ''peer'')) \<and>
   fst (Create stub_lib
          (empty_world\<lparr>csrs := [''pd-0-peer'' \<mapsto> foreign_csr],
                       secrets := [(''db'', ''pd-0-peer'') \<mapsto> usable_secret]\<rparr>)
          ''db'' ''pd-0'' ''pd-0.db.svc'' [''pd-0.db.svc''] [''10.0.0.5''] ''pd'' ''peer''
          [Closed])
     = Returned None \<and>
   \<not> fst (CheckSecret stub_lib
          (empty_world\<lparr>csrs := [''pd-0-peer'' \<mapsto> foreign_csr],
                       secrets := [(''db'', ''pd-0-peer'') \<mapsto> usable_secret],
                       faults := [Some (StatusError ServerFailure ''etcdserver: timeout'')]\<rparr>)
          ''db'' (csrName_of ''pd-0'' ''peer'')) \<and>
   fst (Create stub_lib
          (empty_world\<lparr>csrs := [''pd-0-peer'' \<mapsto> foreign_csr],
                       secrets := [(''db'', ''pd-0-peer'') \<mapsto> usable_secret],
                       faults := [Some (StatusError ServerFailure ''etcdserver: timeout'')]\<rparr>)
          ''db'' ''pd-0'' ''pd-0.db.svc'' [''pd-0.db.svc''] [''10.0.0.5''] ''pd'' ''peer''
          [Closed])
     = Returned (Some (ErrorString
         (''failed to create CSR for [db/pd-0]: pd-0-peer, error: ''
          @ ''CSR db/pd-0-peer already exist, but not created by tidb-operator, skip it'')))"
proof -
  let ?w = "empty_world\<lparr>csrs := [''pd-0-peer'' \<mapsto> foreign_csr]\<rparr>"
  let ?u = "empty_world\<lparr>csrs := [''pd-0-peer'' \<mapsto> foreign_csr],
                        secrets := [(''db'', ''pd-0-peer'') \<mapsto> usable_secret]\<rparr>"
  let ?f = "empty_world\<lparr>csrs := [''pd-0-peer'' \<mapsto> foreign_csr],
                        secrets := [(''db'', ''pd-0-peer'') \<mapsto> usable_secret],
                        faults := [Some (StatusError ServerFailure ''etcdserver: timeout'')]\<rparr>"
  have a: "csrs ?w (csrName_of ''pd-0'' ''peer'') = Some foreign_csr"
    and a2: "csrs ?u (csrName_of ''pd-0'' ''peer'') = Some foreign_csr"
    and a3: "csrs ?f (csrName_of ''pd-0'' ''peer'') = Some foreign_csr"
    by (simp_all add: csrName_of_def)
  have b: "\<not> ownership_labels_match ''db'' ''pd-0'' foreign_csr"
    by (simp add: ownership_labels_match_def foreign_csr_def index_map_def label_New_def
        NamespaceLabelKey_def ManagedByLabelKey_def InstanceLabelKey_def)
  have c: "\<not> fst (CheckSecret stub_lib ?w ''db'' (csrName_of ''pd-0'' ''peer''))"
    and c2: "fst (CheckSecret stub_lib ?u ''db'' (csrName_of ''pd-0'' ''peer''))"
    and c3: "\<not> fst (CheckSecret stub_lib ?f ''db'' (csrName_of ''pd-0'' ''peer''))"
    by (simp_all add: model_defs stub_lib_def empty_world_def usable_secret_def)
  have d: "fst (Create stub_lib ?w ''db'' ''pd-0'' ''pd-0.db.svc'' [''pd-0.db.svc'']
               [''10.0.0.5''] ''pd'' ''peer'' [Closed])
     = Returned (Some (ErrorString
         (''failed to create CSR for [db/pd-0]: pd-0-peer, error: ''
          @ ''CSR db/pd-0-peer already exist, but not created by tidb-operator, skip it'')))"
    and d3: "fst (Create stub_lib ?f ''db'' ''pd-0'' ''pd-0.db.svc'' [''pd-0.db.svc'']
               [''10.0.0.5''] ''pd'' ''peer'' [Closed])
     = Returned (Some (ErrorString
         (''failed to create CSR for [db/pd-0]: pd-0-peer, error: ''
          @ ''CSR db/pd-0-peer already exist, but not created by tidb-operator, skip it'')))"
    by (simp_all add: model_defs stub_lib_def empty_world_def foreign_csr_def usable_secret_def
        sendCSR.simps Let_def)
  from foreign_CSR_untouched [OF a b, of stub_lib "''pd-0.db.svc''" "[''pd-0.db.svc'']"
      "[''10.0.0.5'']" "''pd''" "[Closed]"]
    foreign_CSR_untouched [OF a2 b, of stub_lib "''pd-0.db.svc''" "[''pd-0.db.svc'']"
      "[''10.0.0.5'']" "''pd''" "[Closed]"]
    foreign_CSR_untouched [OF a3 b, of stub_lib "''pd-0.db.svc''" "[''pd-0.db.svc'']"
      "[''10.0.0.5'']" "''pd''" "[Closed]"]
    a b c c2 c3 d d3
  show ?thesis
    by simp
qed

section \<open>The decision on an event\<close>

text \<open>
  An event of the right identity whose only condition is "Approved" and whose certificate
  is present but empty does not qualify in the spec's words; the code takes it, and
  \<^verbatim>\<open>Create\<close> stores the empty certificate and returns nil.
\<close>

theorem empty_certificate_is_persisted:
  "(\<exists>updatedCSR.
      event_Object (signed_event ''pd-0-peer'' 1 []) = CSRObject updatedCSR \<and>
      \<not> spec_qualifying (approved_copy ''pd-0-peer'' 1) updatedCSR) \<and>
   event_action (approved_copy ''pd-0-peer'' 1) (signed_event ''pd-0-peer'' 1 []) = Persist [] \<and>
   fst (Create stub_lib empty_world ''db'' ''pd-0'' ''pd-0.db.svc'' [''pd-0.db.svc'']
          [''10.0.0.5''] ''pd'' ''peer'' [Deliver (signed_event ''pd-0-peer'' 1 [])])
     = Returned None \<and>
   (\<exists>s. secrets (snd (Create stub_lib empty_world ''db'' ''pd-0'' ''pd-0.db.svc''
           [''pd-0.db.svc''] [''10.0.0.5''] ''pd'' ''peer''
           [Deliver (signed_event ''pd-0-peer'' 1 [])])) (''db'', ''pd-0-peer'') = Some s \<and>
        secret_Data s ''cert'' = Some [])"
  by (simp add: model_defs stub_lib_def empty_world_def signed_event_def sendCSR.simps Let_def
      spec_qualifying_def approved_copy_def)

text \<open>
  Claim C4, amended. For an event that carries a CSR resource with no conditions, or with
  as many conditions as the controller's own copy has (one, directly after its approval):
  the event leads to persistence exactly when its conditions are not empty, its identity
  is that of the resource just created, its latest condition has type "Approved" and its
  certificate is present (not nil; it may be empty). Every other such event is ignored
  and the loop goes on with the rest of the schedule; one that is taken goes to
  \<^verbatim>\<open>SaveToSecret\<close> with the certificate of the event.
\<close>

theorem event_action_decides:
  assumes "event_Object event = CSRObject updatedCSR"
    and "csr_Conditions updatedCSR = [] \<or>
         length (csr_Conditions updatedCSR) = length (csr_Conditions csr)"
  shows "event_action csr event =
           (case csr_Certificate updatedCSR of
              None \<Rightarrow> Ignore
            | Some cert \<Rightarrow>
                if csr_Conditions updatedCSR \<noteq> [] \<and>
                   csr_UID updatedCSR = csr_UID csr \<and>
                   cond_Type (last (csr_Conditions updatedCSR)) = ''Approved''
                then Persist cert else Ignore) \<and>
         (event_action csr event = Ignore \<longrightarrow>
            Create_loop ns inst component suffix csrName csr key tick (Deliver event # sched) w
              = Create_loop ns inst component suffix csrName csr key tick sched w) \<and>
         (\<forall>cert. event_action csr event = Persist cert \<longrightarrow>
            Create_loop ns inst component suffix csrName csr key tick (Deliver event # sched) w
              = (case SaveToSecret (glog_Infof w (signed_message ns inst csrName))
                        ns inst component suffix cert key of
                   (None, w1) \<Rightarrow>
                     (case CSRs_Delete w1 csrName of (err, w2) \<Rightarrow> (Returned err, w2))
                 | (Some err, w1) \<Rightarrow> (Returned (Some err), w1)))"
proof -
  have "event_action csr event =
           (case csr_Certificate updatedCSR of
              None \<Rightarrow> Ignore
            | Some cert \<Rightarrow>
                if csr_Conditions updatedCSR \<noteq> [] \<and>
                   csr_UID updatedCSR = csr_UID csr \<and>
                   cond_Type (last (csr_Conditions updatedCSR)) = ''Approved''
                then Persist cert else Ignore)"
  proof (cases "csr_Conditions updatedCSR = []")
    case True
    with assms(1) show ?thesis
      by (simp add: event_action_def split: option.splits)
  next
    case False
    with assms(2) have l: "length (csr_Conditions updatedCSR) = length (csr_Conditions csr)"
      by simp
    from False have "0 < length (csr_Conditions updatedCSR)" by simp
    moreover from False
    have "csr_Conditions updatedCSR ! (length (csr_Conditions updatedCSR) - 1)
            = last (csr_Conditions updatedCSR)"
      by (simp add: last_conv_nth)
    moreover have "nat (int (length (csr_Conditions csr)) - 1)
            = length (csr_Conditions updatedCSR) - 1"
      using l by arith
    ultimately show ?thesis
      using assms(1) False l
      by (auto simp: event_action_def Let_def CertificateApproved_def split: option.splits)
  qed
  then show ?thesis
    by (simp add: signed_message_def)
qed

theorem event_action_decides_witness:
  "event_Object (signed_event ''pd-0-peer'' 1 [45, 1, 7])
     = CSRObject \<lparr>csr_Kind = ''CertificateSigningRequest'', csr_Name = ''pd-0-peer'',
         csr_UID = 1, csr_Labels = Map.empty, csr_Request = [],
         csr_Usages = [UsageClientAuth, UsageServerAuth],
         csr_Conditions = [\<lparr>cond_Type = ''Approved'', cond_Reason = ''AutoApproved'',
                            cond_Message = ''Auto approved by TiDB Operator''\<rparr>],
         csr_Certificate = Some [45, 1, 7]\<rparr> \<and>
   event_action (approved_copy ''pd-0-peer'' 1) (signed_event ''pd-0-peer'' 1 [45, 1, 7])
     = Persist [45, 1, 7] \<and>
   event_action (approved_copy ''pd-0-peer'' 1) (signed_event ''pd-0-peer'' 2 [45, 1, 7])
     = Ignore \<and>
   event_action (approved_copy ''pd-0-peer'' 1) (pending_event ''pd-0-peer'' 1) = Ignore \<and>
   Create_loop ''db'' ''pd-0'' ''pd'' ''peer'' ''pd-0-peer'' (approved_copy ''pd-0-peer'' 1)
     [45, 7] True [Deliver (signed_event ''pd-0-peer'' 2 [45, 1, 7]), Closed] empty_world
     = (Returned (Some (ErrorString ''fail to get signed certificate for pd-0-peer'')),
        empty_world)"
proof -
  let ?csr = "approved_copy ''pd-0-peer'' 1"
  let ?u = "\<lambda>uid. \<lparr>csr_Kind = ''CertificateSigningRequest'', csr_Name = ''pd-0-peer'',
         csr_UID = uid, csr_Labels = Map.empty, csr_Request = [],
         csr_Usages = [UsageClientAuth, UsageServerAuth],
         csr_Conditions = [\<lparr>cond_Type = ''Approved'', cond_Reason = ''AutoApproved'',
                            cond_Message = ''Auto approved by TiDB Operator''\<rparr>],
         csr_Certificate = Some [45, 1, 7]\<rparr>"
  have a: "event_Object (signed_event ''pd-0-peer'' uid [45, 1, 7]) = CSRObject (?u uid)" for uid
    by (simp add: signed_event_def)
  have b: "csr_Conditions (?u uid) = [] \<or>
           length (csr_Conditions (?u uid)) = length (csr_Conditions ?csr)" for uid
    by (simp add: approved_copy_def)
  have a0: "event_Object (pending_event ''pd-0-peer'' 1)
      = CSRObject \<lparr>csr_Kind = ''CertificateSigningRequest'', csr_Name = ''pd-0-peer'',
         csr_UID = 1, csr_Labels = Map.empty, csr_Request = [],
         csr_Usages = [UsageClientAuth, UsageServerAuth],
         csr_Conditions = [], csr_Certificate = None\<rparr>"
    by (simp add: pending_event_def)
  from event_action_decides [OF a [of 1] b [of 1]]
    event_action_decides [OF a [of 2] b [of 2], of "''db''" "''pd-0''" "''pd''" "''peer''"
      "''pd-0-peer''" "[45, 7]" True "[Closed]" empty_world]
    event_action_decides [OF a0, of ?csr]
    a [of 1]
  show ?thesis
    by (simp add: approved_copy_def)
qed

text \<open>
  Where the event has more conditions than the controller's copy, the condition the code
  reads is not the latest one: with one condition in the copy it is the first.
\<close>

lemma event_action_reads_fixed_index:
  "event_action (approved_copy ''pd-0-peer'' 1)
     \<lparr>event_Type = Modified,
      event_Object = CSRObject
        ((approved_copy ''pd-0-peer'' 1)
           \<lparr>csr_Conditions :=
              [\<lparr>cond_Type = ''Approved'', cond_Reason = [], cond_Message = []\<rparr>,
               \<lparr>cond_Type = ''Denied'', cond_Reason = [], cond_Message = []\<rparr>],
            csr_Certificate := Some [45, 1, 7]\<rparr>)\<rparr> = Persist [45, 1, 7] \<and>
   event_action (approved_copy ''pd-0-peer'' 1)
     \<lparr>event_Type = Modified,
      event_Object = CSRObject
        ((approved_copy ''pd-0-peer'' 1)
           \<lparr>csr_Conditions :=
              [\<lparr>cond_Type = ''Denied'', cond_Reason = [], cond_Message = []\<rparr>,
               \<lparr>cond_Type = ''Approved'', cond_Reason = [], cond_Message = []\<rparr>],
            csr_Certificate := Some [45, 1, 7]\<rparr>)\<rparr> = Ignore \<and>
   event_action (approved_copy ''pd-0-peer'' 1)
     \<lparr>event_Type = ErrorEvent, event_Object = StatusObject ''too old resource version''\<rparr>
     = Panic"
  by (simp add: event_action_def approved_copy_def CertificateApproved_def)

section \<open>The tick\<close>

text \<open>
  Claim C5. The channel \<^verbatim>\<open>tick\<close> comes from \<^verbatim>\<open>time.After\<close>, which delivers once. The
  first ten seconds of waiting log the still-pending message and the loop goes on; any
  number of further ten-second periods log nothing. A wait of thirty seconds that ends
  with the channel closing has logged the message once, not three times.
\<close>

theorem tick_fires_once:
  "Create_loop ns inst component suffix csrName csr key True
     (TenSecondsPass # replicate n TenSecondsPass @ sched) w
   = Create_loop ns inst component suffix csrName csr key False sched
       (glog_Infof w (still_pending ns inst csrName)) \<and>
   Create_loop ns inst component suffix csrName csr key True
     [TenSecondsPass, TenSecondsPass, TenSecondsPass, Closed] w
   = (Returned (Some (ErrorString (''fail to get signed certificate for '' @ csrName))),
      w\<lparr>logs := logs w @ [(INFO, still_pending ns inst csrName)]\<rparr>)"
proof -
  have "\<forall>occ\<in>set (TenSecondsPass # replicate n TenSecondsPass). loop_continues csr occ"
    by (simp add: loop_continues_def)
  from Create_loop_continues [OF this, of ns inst component suffix csrName key True sched w]
  show ?thesis
    by (simp add: still_pending_def glog_Infof_def)
qed

section \<open>The channel closes\<close>

text \<open>
  A schedule on which the channel closes and no event before the close qualifies in the
  spec's words, and yet \<^verbatim>\<open>Create\<close> returns nil and has created the secret: the one event
  is of the right identity and approved, and its certificate is present but empty. The
  code takes it and returns before it gets to see the close.
\<close>

theorem closed_after_empty_certificate:
  "(\<exists>csr key w1 updatedCSR.
      Create_until_watch stub_lib empty_world ''db'' ''pd-0'' ''pd-0.db.svc'' [''pd-0.db.svc'']
        [''10.0.0.5''] ''pd'' ''peer'' = (Inr (csr, key), w1) \<and>
      event_Object (signed_event ''pd-0-peer'' 1 []) = CSRObject updatedCSR \<and>
      \<not> spec_qualifying csr updatedCSR) \<and>
   fst (Create stub_lib empty_world ''db'' ''pd-0'' ''pd-0.db.svc'' [''pd-0.db.svc'']
          [''10.0.0.5''] ''pd'' ''peer'' [Deliver (signed_event ''pd-0-peer'' 1 []), Closed])
     = Returned None \<and>
   secrets empty_world (''db'', ''pd-0-peer'') = None \<and>
   (\<exists>s. secrets (snd (Create stub_lib empty_world ''db'' ''pd-0'' ''pd-0.db.svc''
           [''pd-0.db.svc''] [''10.0.0.5''] ''pd'' ''peer''
           [Deliver (signed_event ''pd-0-peer'' 1 []), Closed])) (''db'', ''pd-0-peer'') = Some s \<and>
        secret_Data s ''cert'' = Some [])"
  by (simp add: model_defs stub_lib_def empty_world_def signed_event_def sendCSR.simps Let_def
      spec_qualifying_def)

text \<open>
  Claim C6, amended. When \<^verbatim>\<open>Create\<close> has reached its wait loop and the watch channel
  closes after occurrences none of which brings a signature the code accepts (each is
  ten seconds passing, or an event with a CSR resource that has no conditions or as many
  as the controller's copy, and that is not at once of the identity just created, with
  latest condition "Approved" and a certificate that is not nil), \<^verbatim>\<open>Create\<close> returns
  the error whose text names the CSR resource, and the secrets are what they were when
  \<^verbatim>\<open>Create\<close> was called.
\<close>

theorem watch_closed_before_signature:
  assumes "Create_until_watch lib w ns inst commonName hostList IPList component suffix
             = (Inr (csr, key), w1)"
    and "\<forall>occ\<in>set pre. brings_no_signature csr occ"
  shows "fst (Create lib w ns inst commonName hostList IPList component suffix
                (pre @ Closed # rest))
           = Returned (Some (ErrorString (''fail to get signed certificate for ''
                                            @ csrName_of inst suffix))) \<and>
         secrets (snd (Create lib w ns inst commonName hostList IPList component suffix
                         (pre @ Closed # rest)))
           = secrets w"
proof -
  from assms(2) have go_on: "\<forall>occ\<in>set pre. loop_continues csr occ"
    by (blast intro: brings_no_signature_continues)
  from Create_until_watch_wait(2) [OF assms(1)] have "secrets w1 = secrets w" .
  then show ?thesis
    using assms(1) Create_loop_continues [OF go_on]
    by (simp add: Create_def logs_only_Infof)
qed

theorem watch_closed_before_signature_witness:
  "(\<exists>csr key w1.
      Create_until_watch stub_lib empty_world ''db'' ''pd-0'' ''pd-0.db.svc'' [''pd-0.db.svc'']
        [''10.0.0.5''] ''pd'' ''peer'' = (Inr (csr, key), w1) \<and>
      list_all (brings_no_signature csr)
        [Deliver (pending_event ''pd-0-peer'' 1), TenSecondsPass,
         Deliver (signed_event ''pd-0-peer'' 2 [45, 1, 7])]) \<and>
   fst (Create stub_lib empty_world ''db'' ''pd-0'' ''pd-0.db.svc'' [''pd-0.db.svc'']
          [''10.0.0.5''] ''pd'' ''peer''
          [Deliver (pending_event ''pd-0-peer'' 1), TenSecondsPass,
           Deliver (signed_event ''pd-0-peer'' 2 [45, 1, 7]), Closed])
     = Returned (Some (ErrorString ''fail to get signed certificate for pd-0-peer'')) \<and>
   secrets (snd (Create stub_lib empty_world ''db'' ''pd-0'' ''pd-0.db.svc'' [''pd-0.db.svc'']
          [''10.0.0.5''] ''pd'' ''peer''
          [Deliver (pending_event ''pd-0-peer'' 1), TenSecondsPass,
           Deliver (signed_event ''pd-0-peer'' 2 [45, 1, 7]), Closed]))
     = secrets empty_world"
proof -
  obtain csr key w1 where
    a: "Create_until_watch stub_lib empty_world ''db'' ''pd-0'' ''pd-0.db.svc''
          [''pd-0.db.svc''] [''10.0.0.5''] ''pd'' ''peer'' = (Inr (csr, key), w1)"
    and a': "csr_UID csr = 1" "length (csr_Conditions csr) = 1"
    by (simp add: model_defs stub_lib_def empty_world_def sendCSR.simps Let_def)
  have b: "\<forall>occ\<in>set [Deliver (pending_event ''pd-0-peer'' 1), TenSecondsPass,
                       Deliver (signed_event ''pd-0-peer'' 2 [45, 1, 7])].
             brings_no_signature csr occ"
    using a'
    by (simp add: brings_no_signature_def accepted_signature_def pending_event_def
        signed_event_def)
  from watch_closed_before_signature [OF a b, of "[]"] a b show ?thesis
    by (simp add: csrName_of_def list_all_iff)
qed

section \<open>Persisting and cleaning up\<close>

text \<open>
  Claim C7. When \<^verbatim>\<open>Create\<close> has reached its wait loop and, after occurrences that let
  the loop go on, an event is taken: if \<^verbatim>\<open>SaveToSecret\<close> returns nil, \<^verbatim>\<open>Create\<close> calls
  the delete of the CSR resource and returns what the delete returns (a delete that
  returned nil is one the server has accepted, and the resource is gone where the server
  removes it with that delete); if \<^verbatim>\<open>SaveToSecret\<close> returns an error,
  \<^verbatim>\<open>Create\<close> returns that error and the CSR resources are what they were when the wait
  began, the one under the derived name still there.
\<close>

theorem persist_then_delete:
  assumes "Create_until_watch lib w ns inst commonName hostList IPList component suffix
             = (Inr (csr, key), w1)"
    and "\<forall>occ\<in>set pre. loop_continues csr occ"
    and "event_action csr event = Persist cert"
    and "SaveToSecret
           (glog_Infof
              (if TenSecondsPass \<in> set pre
               then glog_Infof w1 (still_pending ns inst (csrName_of inst suffix)) else w1)
              (signed_message ns inst (csrName_of inst suffix)))
           ns inst component suffix cert key = (saved, w2)"
  shows "(saved = None \<longrightarrow>
            Create lib w ns inst commonName hostList IPList component suffix
              (pre @ Deliver event # rest)
              = (Returned (fst (CSRs_Delete w2 (csrName_of inst suffix))),
                 snd (CSRs_Delete w2 (csrName_of inst suffix))) \<and>
            (fst (CSRs_Delete w2 (csrName_of inst suffix)) = None \<longrightarrow>
               deletes (snd (CSRs_Delete w2 (csrName_of inst suffix))) = Suc (deletes w2) \<and>
               (removes w2 (deletes w2) \<longrightarrow>
                  csrs (snd (CSRs_Delete w2 (csrName_of inst suffix))) (csrName_of inst suffix)
                    = None))) \<and>
         (\<forall>err. saved = Some err \<longrightarrow>
            Create lib w ns inst commonName hostList IPList component suffix
              (pre @ Deliver event # rest) = (Returned (Some err), w2) \<and>
            csrs w2 = csrs w1 \<and>
            (\<exists>stored. csrs w2 (csrName_of inst suffix) = Some stored))"
proof -
  let ?name = "csrName_of inst suffix"
  let ?run = "Create lib w ns inst commonName hostList IPList component suffix
                (pre @ Deliver event # rest)"
  have run: "?run =
      (case saved of
         None \<Rightarrow> (case CSRs_Delete w2 ?name of (err, w3) \<Rightarrow> (Returned err, w3))
       | Some err \<Rightarrow> (Returned (Some err), w2))"
    using assms(1,3,4) Create_loop_continues [OF assms(2)]
    by (simp add: Create_def signed_message_def split: option.splits)
  have ok: "saved = None \<longrightarrow>
      ?run = (Returned (fst (CSRs_Delete w2 ?name)), snd (CSRs_Delete w2 ?name)) \<and>
      (fst (CSRs_Delete w2 ?name) = None \<longrightarrow>
         deletes (snd (CSRs_Delete w2 ?name)) = Suc (deletes w2) \<and>
         (removes w2 (deletes w2) \<longrightarrow> csrs (snd (CSRs_Delete w2 ?name)) ?name = None))"
    using run CSRs_Delete_accepted [of w2 ?name "snd (CSRs_Delete w2 ?name)"]
    by (cases "CSRs_Delete w2 ?name") auto
  have ko: "\<forall>err. saved = Some err \<longrightarrow>
      ?run = (Returned (Some err), w2) \<and> csrs w2 = csrs w1 \<and>
      (\<exists>stored. csrs w2 ?name = Some stored)"
  proof (intro allI impI)
    fix err
    assume e: "saved = Some err"
    with assms(4) SaveToSecret_failure
    have "csrs w2 = csrs w1"
      by (fastforce simp: logs_only_Infof split: if_splits)
    with e run Create_until_watch_stored [OF assms(1)]
    show "?run = (Returned (Some err), w2) \<and> csrs w2 = csrs w1 \<and>
          (\<exists>stored. csrs w2 ?name = Some stored)"
      by simp
  qed
  from ok ko show ?thesis by blast
qed

theorem persist_then_delete_witness:
  "fst (Create stub_lib empty_world ''db'' ''pd-0'' ''pd-0.db.svc'' [''pd-0.db.svc'']
          [''10.0.0.5''] ''pd'' ''peer'' [TenSecondsPass, Deliver (signed_event ''pd-0-peer'' 1 [45, 1, 7])])
     = Returned None \<and>
   csrs (snd (Create stub_lib empty_world ''db'' ''pd-0'' ''pd-0.db.svc'' [''pd-0.db.svc'']
          [''10.0.0.5''] ''pd'' ''peer'' [TenSecondsPass, Deliver (signed_event ''pd-0-peer'' 1 [45, 1, 7])]))
     ''pd-0-peer'' = None \<and>
   fst (Create stub_lib stale_secret_world ''db'' ''pd-0'' ''pd-0.db.svc'' [''pd-0.db.svc'']
          [''10.0.0.5''] ''pd'' ''peer'' [TenSecondsPass, Deliver (signed_event ''pd-0-peer'' 1 [45, 1, 7])])
     = Returned (Some (StatusError AlreadyExists
                         (''secrets '' @ quoted ''pd-0-peer'' @ '' already exists''))) \<and>
   (\<exists>stored. csrs (snd (Create stub_lib stale_secret_world ''db'' ''pd-0'' ''pd-0.db.svc''
          [''pd-0.db.svc''] [''10.0.0.5''] ''pd'' ''peer''
          [TenSecondsPass, Deliver (signed_event ''pd-0-peer'' 1 [45, 1, 7])])) ''pd-0-peer'' = Some stored)"
proof -
  let ?pre = "[TenSecondsPass]"
  let ?ev = "signed_event ''pd-0-peer'' 1 [45, 1, 7]"
  obtain csr key w1 where
    a: "Create_until_watch stub_lib empty_world ''db'' ''pd-0'' ''pd-0.db.svc''
          [''pd-0.db.svc''] [''10.0.0.5''] ''pd'' ''peer'' = (Inr (csr, key), w1)"
    and a': "csr_UID csr = 1" "length (csr_Conditions csr) = 1"
    and a'': "faults w1 = []" "secrets w1 (''db'', ''pd-0-peer'') = None"
    by (simp add: model_defs stub_lib_def empty_world_def sendCSR.simps Let_def)
  have b: "\<forall>occ\<in>set ?pre. loop_continues csr occ"
    by (simp add: loop_continues_def)
  have c: "event_action csr ?ev = Persist [45, 1, 7]"
    using a' by (simp add: event_action_def signed_event_def CertificateApproved_def)
  obtain w2 where
    d: "SaveToSecret
          (glog_Infof
             (if TenSecondsPass \<in> set ?pre
              then glog_Infof w1 (still_pending ''db'' ''pd-0'' (csrName_of ''pd-0'' ''peer''))
              else w1)
             (signed_message ''db'' ''pd-0'' (csrName_of ''pd-0'' ''peer'')))
          ''db'' ''pd-0'' ''pd'' ''peer'' [45, 1, 7] key = (None, w2)"
    using a'' by (simp add: SaveToSecret_def secretName_of_def Secrets_Create_def api_call_def
        glog_Infof_def Let_def)
  obtain csr' key' w1' where
    a2: "Create_until_watch stub_lib stale_secret_world ''db'' ''pd-0'' ''pd-0.db.svc''
          [''pd-0.db.svc''] [''10.0.0.5''] ''pd'' ''peer'' = (Inr (csr', key'), w1')"
    and a2': "csr_UID csr' = 1" "length (csr_Conditions csr') = 1"
    and a2'': "faults w1' = []" "secrets w1' (''db'', ''pd-0-peer'') \<noteq> None"
    by (simp add: model_defs stub_lib_def empty_world_def stale_secret_world_def
        sendCSR.simps Let_def)
  have b2: "\<forall>occ\<in>set ?pre. loop_continues csr' occ"
    by (simp add: loop_continues_def)
  have c2: "event_action csr' ?ev = Persist [45, 1, 7]"
    using a2' by (simp add: event_action_def signed_event_def CertificateApproved_def)
  obtain w2' where
    d2: "SaveToSecret
          (glog_Infof
             (if TenSecondsPass \<in> set ?pre
              then glog_Infof w1' (still_pending ''db'' ''pd-0'' (csrName_of ''pd-0'' ''peer''))
              else w1')
             (signed_message ''db'' ''pd-0'' (csrName_of ''pd-0'' ''peer'')))
          ''db'' ''pd-0'' ''pd'' ''peer'' [45, 1, 7] key'
        = (Some (StatusError AlreadyExists
                   (''secrets '' @ quoted ''pd-0-peer'' @ '' already exists'')), w2')"
    using a2'' by (auto simp: SaveToSecret_def secretName_of_def Secrets_Create_def api_call_def
        glog_Infof_def Let_def)
  have run1: "fst (Create stub_lib empty_world ''db'' ''pd-0'' ''pd-0.db.svc'' [''pd-0.db.svc'']
          [''10.0.0.5''] ''pd'' ''peer'' [TenSecondsPass, Deliver ?ev]) = Returned None"
    "csrs (snd (Create stub_lib empty_world ''db'' ''pd-0'' ''pd-0.db.svc'' [''pd-0.db.svc'']
          [''10.0.0.5''] ''pd'' ''peer'' [TenSecondsPass, Deliver ?ev])) ''pd-0-peer'' = None"
    by (simp_all add: model_defs stub_lib_def empty_world_def signed_event_def sendCSR.simps
        Let_def)
  from persist_then_delete [OF a b c d, of "[]"] persist_then_delete [OF a2 b2 c2 d2, of "[]"]
    run1
  show ?thesis
    by (auto simp: csrName_of_def)
qed

section \<open>The two names\<close>



text \<open>
  So with the empty suffix a second call does not find what the first has stored, even
  when certificate and key are usable.
\<close>

lemma second_Create_reissues_empty_suffix:
  "fst (Create stub_lib empty_world ''db'' ''pd-0'' ''pd-0.db.svc'' [''pd-0.db.svc'']
          [''10.0.0.5''] ''pd'' [] [Deliver (signed_event ''pd-0'' 1 [45, 1, 7])])
     = Returned None \<and>
   credential_usable stub_lib [45, 1, 7] [45, 7] \<and>
   (\<exists>s. secrets (snd (Create stub_lib empty_world ''db'' ''pd-0'' ''pd-0.db.svc''
           [''pd-0.db.svc''] [''10.0.0.5''] ''pd'' []
           [Deliver (signed_event ''pd-0'' 1 [45, 1, 7])])) (''db'', ''pd-0-'') = Some s \<and>
        secret_Data s = [''cert'' \<mapsto> [45, 1, 7], ''key'' \<mapsto> [45, 7]]) \<and>
   secrets (snd (Create stub_lib empty_world ''db'' ''pd-0'' ''pd-0.db.svc''
           [''pd-0.db.svc''] [''10.0.0.5''] ''pd'' []
           [Deliver (signed_event ''pd-0'' 1 [45, 1, 7])])) (''db'', ''pd-0'') = None \<and>
   fst (Create stub_lib
          (snd (Create stub_lib empty_world ''db'' ''pd-0'' ''pd-0.db.svc'' [''pd-0.db.svc'']
             [''10.0.0.5''] ''pd'' [] [Deliver (signed_event ''pd-0'' 1 [45, 1, 7])]))
          ''db'' ''pd-0'' ''pd-0.db.svc'' [''pd-0.db.svc''] [''10.0.0.5''] ''pd'' [] [Closed])
     = Returned (Some (ErrorString ''fail to get signed certificate for pd-0'')) \<and>
   rand (snd (Create stub_lib
          (snd (Create stub_lib empty_world ''db'' ''pd-0'' ''pd-0.db.svc'' [''pd-0.db.svc'']
             [''10.0.0.5''] ''pd'' [] [Deliver (signed_event ''pd-0'' 1 [45, 1, 7])]))
          ''db'' ''pd-0'' ''pd-0.db.svc'' [''pd-0.db.svc''] [''10.0.0.5''] ''pd'' [] [Closed]))
     = 11"
  by (simp add: model_defs stub_lib_def empty_world_def signed_event_def sendCSR.simps Let_def
      credential_usable_def)

section \<open>Calling Create again\<close>

text \<open>
  A first call that succeeds and a second that is no no-op: the signer's certificate is
  of an issuer outside the trusted roots, the first call stores it and returns nil, and
  the second call finds the secret not usable, draws a new key and creates a new CSR
  resource.
\<close>

theorem second_Create_reissues:
  "fst (Create stub_lib empty_world ''db'' ''pd-0'' ''pd-0.db.svc'' [''pd-0.db.svc'']
          [''10.0.0.5''] ''pd'' ''peer'' [Deliver (signed_event ''pd-0-peer'' 1 [45, 2, 7])])
     = Returned None \<and>
   rand (snd (Create stub_lib empty_world ''db'' ''pd-0'' ''pd-0.db.svc'' [''pd-0.db.svc'']
          [''10.0.0.5''] ''pd'' ''peer'' [Deliver (signed_event ''pd-0-peer'' 1 [45, 2, 7])]))
     = 9 \<and>
   csrs (snd (Create stub_lib empty_world ''db'' ''pd-0'' ''pd-0.db.svc'' [''pd-0.db.svc'']
          [''10.0.0.5''] ''pd'' ''peer'' [Deliver (signed_event ''pd-0-peer'' 1 [45, 2, 7])]))
     ''pd-0-peer'' = None \<and>
   fst (Create stub_lib
          (snd (Create stub_lib empty_world ''db'' ''pd-0'' ''pd-0.db.svc'' [''pd-0.db.svc'']
             [''10.0.0.5''] ''pd'' ''peer'' [Deliver (signed_event ''pd-0-peer'' 1 [45, 2, 7])]))
          ''db'' ''pd-0'' ''pd-0.db.svc'' [''pd-0.db.svc''] [''10.0.0.5''] ''pd'' ''peer''
          [Closed])
     = Returned (Some (ErrorString ''fail to get signed certificate for pd-0-peer'')) \<and>
   rand (snd (Create stub_lib
          (snd (Create stub_lib empty_world ''db'' ''pd-0'' ''pd-0.db.svc'' [''pd-0.db.svc'']
             [''10.0.0.5''] ''pd'' ''peer'' [Deliver (signed_event ''pd-0-peer'' 1 [45, 2, 7])]))
          ''db'' ''pd-0'' ''pd-0.db.svc'' [''pd-0.db.svc''] [''10.0.0.5''] ''pd'' ''peer''
          [Closed]))
     = 11 \<and>
   (\<exists>c. csrs (snd (Create stub_lib
          (snd (Create stub_lib empty_world ''db'' ''pd-0'' ''pd-0.db.svc'' [''pd-0.db.svc'']
             [''10.0.0.5''] ''pd'' ''peer'' [Deliver (signed_event ''pd-0-peer'' 1 [45, 2, 7])]))
          ''db'' ''pd-0'' ''pd-0.db.svc'' [''pd-0.db.svc''] [''10.0.0.5''] ''pd'' ''peer''
          [Closed])) ''pd-0-peer'' = Some c \<and> csr_UID c = 2)"
  by (simp add: model_defs stub_lib_def empty_world_def signed_event_def sendCSR.simps Let_def)

text \<open>
  Claim C1, amended. For a descriptor with a non-empty suffix: after a call of \<^verbatim>\<open>Create\<close>
  that returned nil, if the read of the secret is not failed and the certificate and key
  then stored under the name \<^verbatim>\<open>instance-suffix\<close> pass the checks of \<^verbatim>\<open>CheckSecret\<close>, a
  second call with the same descriptor returns nil at the secret check: the CSR
  resources, the secrets, the random source and the identity counter are untouched,
  whatever the watch would deliver.
\<close>

theorem second_Create_reuses_secret:
  assumes "suffix \<noteq> []"
    and "Create lib w ns inst commonName hostList IPList component suffix sched
           = (Returned None, w')"
    and "fst (api_call w') = None"
    and "\<forall>s. secrets w' (ns, secretName_of inst suffix) = Some s \<longrightarrow>
           credential_usable lib (index_data (secret_Data s) ''cert'')
             (index_data (secret_Data s) ''key'')"
  shows "fst (Create lib w' ns inst commonName hostList IPList component suffix sched')
           = Returned None \<and>
         csrs (snd (Create lib w' ns inst commonName hostList IPList component suffix sched'))
           = csrs w' \<and>
         secrets (snd (Create lib w' ns inst commonName hostList IPList component suffix sched'))
           = secrets w' \<and>
         rand (snd (Create lib w' ns inst commonName hostList IPList component suffix sched'))
           = rand w' \<and>
         next_uid (snd (Create lib w' ns inst commonName hostList IPList component suffix
                          sched'))
           = next_uid w'"
proof -
  let ?name = "csrName_of inst suffix"
  from assms(1) have n: "secretName_of inst suffix = ?name"
    by (simp add: csrName_of_def secretName_of_def)
  from Create_success_secret [OF assms(2,1)] obtain s where "secrets w' (ns, ?name) = Some s"
    by blast
  with assms(3,4) n have chk: "fst (CheckSecret lib w' ns ?name)"
    by (simp add: CheckSecret_usable)
  obtain b w1 where cs: "CheckSecret lib w' ns ?name = (b, w1)"
    by (cases "CheckSecret lib w' ns ?name")
  from Create_reuse [OF chk] CheckSecret_stores [OF cs] cs show ?thesis
    by (simp add: logs_only_Infof)
qed

theorem second_Create_reuses_secret_witness:
  "[] \<noteq> ''peer'' \<and>
   fst (Create stub_lib empty_world ''db'' ''pd-0'' ''pd-0.db.svc'' [''pd-0.db.svc'']
          [''10.0.0.5''] ''pd'' ''peer'' [Deliver (signed_event ''pd-0-peer'' 1 [45, 1, 7])])
     = Returned None \<and>
   fst (Create stub_lib
          (snd (Create stub_lib empty_world ''db'' ''pd-0'' ''pd-0.db.svc'' [''pd-0.db.svc'']
             [''10.0.0.5''] ''pd'' ''peer'' [Deliver (signed_event ''pd-0-peer'' 1 [45, 1, 7])]))
          ''db'' ''pd-0'' ''pd-0.db.svc'' [''pd-0.db.svc''] [''10.0.0.5''] ''pd'' ''peer''
          [Closed])
     = Returned None \<and>
   rand (snd (Create stub_lib
          (snd (Create stub_lib empty_world ''db'' ''pd-0'' ''pd-0.db.svc'' [''pd-0.db.svc'']
             [''10.0.0.5''] ''pd'' ''peer'' [Deliver (signed_event ''pd-0-peer'' 1 [45, 1, 7])]))
          ''db'' ''pd-0'' ''pd-0.db.svc'' [''pd-0.db.svc''] [''10.0.0.5''] ''pd'' ''peer''
          [Closed]))
     = 9 \<and>
   csrs (snd (Create stub_lib
          (snd (Create stub_lib empty_world ''db'' ''pd-0'' ''pd-0.db.svc'' [''pd-0.db.svc'']
             [''10.0.0.5''] ''pd'' ''peer'' [Deliver (signed_event ''pd-0-peer'' 1 [45, 1, 7])]))
          ''db'' ''pd-0'' ''pd-0.db.svc'' [''pd-0.db.svc''] [''10.0.0.5''] ''pd'' ''peer''
          [Closed])) ''pd-0-peer''
     = None"
proof -
  let ?first = "Create stub_lib empty_world ''db'' ''pd-0'' ''pd-0.db.svc'' [''pd-0.db.svc'']
          [''10.0.0.5''] ''pd'' ''peer'' [Deliver (signed_event ''pd-0-peer'' 1 [45, 1, 7])]"
  have a: "''peer'' \<noteq> []" by simp
  have f: "fst ?first = Returned None"
    and r: "rand (snd ?first) = 9" "csrs (snd ?first) ''pd-0-peer'' = None"
    and c: "fst (api_call (snd ?first)) = None"
    and d: "\<forall>s. secrets (snd ?first) (''db'', secretName_of ''pd-0'' ''peer'') = Some s \<longrightarrow>
              credential_usable stub_lib (index_data (secret_Data s) ''cert'')
                (index_data (secret_Data s) ''key'')"
    by (simp_all add: model_defs stub_lib_def empty_world_def signed_event_def sendCSR.simps
        Let_def credential_usable_def)
  from f have b: "?first = (Returned None, snd ?first)"
    by (simp add: prod_eq_iff)
  from second_Create_reuses_secret [OF a b c d, of "[Closed]"] f r show ?thesis
    by simp
qed

end
